theory Spec2Isabelle
  imports Main
begin

section \<open>The Edge driver manager (files/msedgedriver\_manager/main.py)\<close>

text \<open>
  The module locates or downloads \<open>msedgedriver.exe\<close>. Everything it does goes through the
  operating system: the file system, two command line utilities, WinINet, urlmon, urllib and
  the Shell.Application COM object. The embedding keeps the control flow of every function
  of the module (each \<open>try\<close>, \<open>except\<close>, \<open>finally\<close>, early \<open>return\<close> and loop) and makes
  the operating system explicit: a file system tree that the functions read and update, a
  record \<open>env\<close> of the answers given by the outside world, the log lines written, and the
  list of external calls made.
\<close>

subsection \<open>Text\<close>

definition newline :: char where "newline = CHR 0x0A"
definition backslash :: char where "backslash = CHR 0x5C"
definition dquote :: char where "dquote = CHR 0x22"
definition squote :: char where "squote = CHR 0x27"
definition carriage_return :: char where "carriage_return = CHR 0x0D"

text \<open>\<open>str.isspace\<close> on the code points below 256; \<open>\s\<close> of \<open>re\<close> is the same class.\<close>

definition is_space :: "char \<Rightarrow> bool" where
  "is_space c = (let n = (of_char c :: nat) in
     (9 \<le> n \<and> n \<le> 13) \<or> (28 \<le> n \<and> n \<le> 32) \<or> n = 133 \<or> n = 160)"

text \<open>\<open>str.strip()\<close>\<close>

definition strip :: "string \<Rightarrow> string" where
  "strip s = rev (dropWhile is_space (rev (dropWhile is_space s)))"

text \<open>\<open>str.lower()\<close> on the code points below 256.\<close>

definition lower_char :: "char \<Rightarrow> char" where
  "lower_char c = (let n = (of_char c :: nat) in
     if (65 \<le> n \<and> n \<le> 90) \<or> (192 \<le> n \<and> n \<le> 214) \<or> (216 \<le> n \<and> n \<le> 222)
     then char_of (n + 32) else c)"

definition lower :: "string \<Rightarrow> string" where
  "lower s = map lower_char s"

text \<open>\<open>s.replace(c, r)\<close> for a pattern of one character.\<close>

definition replace_char :: "char \<Rightarrow> string \<Rightarrow> string \<Rightarrow> string" where
  "replace_char c r s = concat (map (\<lambda>x. if x = c then r else [x]) s)"

fun starts_with :: "string \<Rightarrow> string \<Rightarrow> bool" where
  "starts_with [] s = True"
| "starts_with (p # ps) [] = False"
| "starts_with (p # ps) (c # cs) = (p = c \<and> starts_with ps cs)"

definition digit_char :: "nat \<Rightarrow> char" where
  "digit_char d = ''0123456789'' ! d"

fun show_nat :: "nat \<Rightarrow> string" where
  "show_nat n = (if n < 10 then [digit_char n] else show_nat (n div 10) @ [digit_char (n mod 10)])"

definition show_int :: "int \<Rightarrow> string" where
  "show_int i = (if i < 0 then CHR ''-'' # show_nat (nat (- i)) else show_nat (nat i))"

text \<open>
  What a file opened in text mode (\<open>open(p, 'r')\<close>, universal newlines) makes of the line
  ends: a carriage return followed by a line feed, and a carriage return alone, are read as
  one line feed.
\<close>

fun universal_newlines :: "string \<Rightarrow> string" where
  "universal_newlines [] = []"
| "universal_newlines [c] = [if c = carriage_return then newline else c]"
| "universal_newlines (c # d # s) =
     (if c = carriage_return then
        (if d = newline then newline # universal_newlines s
         else newline # universal_newlines (d # s))
      else c # universal_newlines (d # s))"

subsection \<open>Regular expressions of the version probe\<close>

text \<open>The greedy \<open>(.+)\<close>: the longest run of characters other than the newline.\<close>

definition dot_plus :: "string \<Rightarrow> string" where
  "dot_plus s = takeWhile (\<lambda>c. c \<noteq> newline) s"

text \<open>
  \<open>re.search(r'Version=(.+)', s)\<close>: group 1 of the leftmost match, \<open>None\<close> when the
  pattern matches nowhere. At a position the pattern matches when \<open>Version=\<close> is followed by
  at least one character that is not a newline.
\<close>

fun search_wmic :: "string \<Rightarrow> string option" where
  "search_wmic [] = None"
| "search_wmic (c # cs) =
     (if starts_with ''Version='' (c # cs) \<and> dot_plus (drop 8 (c # cs)) \<noteq> []
      then Some (dot_plus (drop 8 (c # cs)))
      else search_wmic cs)"

text \<open>
  \<open>version\s+REG_SZ\s+(.+)\<close> tried at one position. Both \<open>\s+\<close> are greedy. The first must
  take the whole run of white space, since \<open>REG_SZ\<close> starts with a letter. When a character
  follows the second run it is not white space, the second \<open>\s+\<close> keeps the whole run and the
  group starts there. When the text ends with the second run, the matcher backtracks:
  \<open>\s+\<close> gives characters back until \<open>(.+)\<close> can start, which is at the last character of
  the run (the first excepted) that is not a newline, and the group is that one character.
\<close>

definition match_reg_here :: "string \<Rightarrow> string option" where
  "match_reg_here s =
     (if \<not> starts_with ''version'' s then None
      else let r1 = drop 7 s; r2 = dropWhile is_space r1 in
        if takeWhile is_space r1 = [] \<or> \<not> starts_with ''REG_SZ'' r2 then None
        else let r3 = drop 6 r2; ws = takeWhile is_space r3; rest = dropWhile is_space r3 in
          if ws = [] then None
          else if rest \<noteq> [] then Some (dot_plus rest)
          else (case filter (\<lambda>c. c \<noteq> newline) (tl ws) of
                  [] \<Rightarrow> None
                | x # xs \<Rightarrow> Some [last (x # xs)]))"

text \<open>\<open>re.search(r'version\s+REG_SZ\s+(.+)', s)\<close>: group 1 of the leftmost match.\<close>

fun search_reg :: "string \<Rightarrow> string option" where
  "search_reg [] = None"
| "search_reg (c # cs) =
     (case match_reg_here (c # cs) of Some g \<Rightarrow> Some g | None \<Rightarrow> search_reg cs)"

subsection \<open>Paths and the file system\<close>

text \<open>
  A path is the list of its components from the drive down; \<open>os.path.join(p, name)\<close> is
  \<open>p @ [name]\<close> and \<open>os.path.dirname\<close> is \<open>butlast\<close>. The file system is a tree. Names are
  looked up without regard to case, as NTFS does (the module is Windows only: it loads
  \<open>windll\<close> on import); the tree keeps the names as they were written.
\<close>

type_synonym path = "string list"

datatype node = File string | Dir "(string \<times> node) list"

definition same_name :: "string \<Rightarrow> string \<Rightarrow> bool" where
  "same_name a b = (lower a = lower b)"

definition path_str :: "path \<Rightarrow> string" where
  "path_str p = (case p of [] \<Rightarrow> [] | x # xs \<Rightarrow> x @ concat (map (\<lambda>n. backslash # n) xs))"

definition join :: "path \<Rightarrow> string \<Rightarrow> path" where
  "join p name = p @ [name]"

definition dirname :: "path \<Rightarrow> path" where
  "dirname p = butlast p"

fun fs_lookup :: "node \<Rightarrow> path \<Rightarrow> node option" where
  "fs_lookup n [] = Some n"
| "fs_lookup (File d) (x # p) = None"
| "fs_lookup (Dir cs) (x # p) =
     (case find (\<lambda>c. same_name (fst c) x) cs of
        None \<Rightarrow> None
      | Some c \<Rightarrow> fs_lookup (snd c) p)"

definition path_exists :: "node \<Rightarrow> path \<Rightarrow> bool" where
  "path_exists fs p = (fs_lookup fs p \<noteq> None)"

definition put_child :: "string \<Rightarrow> node \<Rightarrow> (string \<times> node) list \<Rightarrow> (string \<times> node) list" where
  "put_child x new cs = filter (\<lambda>c. \<not> same_name (fst c) x) cs @ [(x, new)]"

definition del_child :: "string \<Rightarrow> (string \<times> node) list \<Rightarrow> (string \<times> node) list" where
  "del_child x cs = filter (\<lambda>c. \<not> same_name (fst c) x) cs"

definition in_child :: "string \<Rightarrow> (node \<Rightarrow> node) \<Rightarrow> (string \<times> node) list \<Rightarrow> (string \<times> node) list" where
  "in_child x g cs = map (\<lambda>c. if same_name (fst c) x then (fst c, g (snd c)) else c) cs"

text \<open>Store a node at a path whose parent is a directory (elsewhere nothing changes).\<close>

fun fs_put :: "path \<Rightarrow> node \<Rightarrow> node \<Rightarrow> node" where
  "fs_put [] new fs = fs"
| "fs_put p new (File d) = File d"
| "fs_put [x] new (Dir cs) = Dir (put_child x new cs)"
| "fs_put (x # y # p) new (Dir cs) = Dir (in_child x (fs_put (y # p) new) cs)"

text \<open>Remove whatever is at a path.\<close>

fun fs_del :: "path \<Rightarrow> node \<Rightarrow> node" where
  "fs_del [] fs = fs"
| "fs_del p (File d) = File d"
| "fs_del [x] (Dir cs) = Dir (del_child x cs)"
| "fs_del (x # y # p) (Dir cs) = Dir (in_child x (fs_del (y # p)) cs)"

text \<open>\<open>os.makedirs\<close>: the directories of the path that are missing, from the top.\<close>

fun fs_makedirs :: "path \<Rightarrow> path \<Rightarrow> node \<Rightarrow> node" where
  "fs_makedirs made [] fs = fs"
| "fs_makedirs made (x # p) fs =
     fs_makedirs (made @ [x]) p
       (if path_exists fs (made @ [x]) then fs else fs_put (made @ [x]) (Dir []) fs)"

definition is_dir :: "node \<Rightarrow> bool" where
  "is_dir n = (case n of Dir cs \<Rightarrow> True | File d \<Rightarrow> False)"

text \<open>\<open>os.path.isdir\<close>\<close>

definition path_isdir :: "node \<Rightarrow> path \<Rightarrow> bool" where
  "path_isdir fs p = (case fs_lookup fs p of Some (Dir cs) \<Rightarrow> True | _ \<Rightarrow> False)"

text \<open>
  \<open>os.walk(top)\<close>, top down: one triple (directory, names of its subdirectories, names of
  its files) for the directory and then those of its subdirectories; nothing when the path
  is not a directory.
\<close>

fun walk_node :: "path \<Rightarrow> node \<Rightarrow> (path \<times> string list \<times> string list) list" where
  "walk_node p (File d) = []"
| "walk_node p (Dir cs) =
     (p, map fst (filter (\<lambda>c. is_dir (snd c)) cs), map fst (filter (\<lambda>c. \<not> is_dir (snd c)) cs))
     # concat (map (\<lambda>c. walk_node (p @ [fst c]) (snd c)) cs)"

definition os_walk :: "node \<Rightarrow> path \<Rightarrow> (path \<times> string list \<times> string list) list" where
  "os_walk fs d = (case fs_lookup fs d of None \<Rightarrow> [] | Some n \<Rightarrow> walk_node d n)"

subsection \<open>Exceptions, the outside world and the state\<close>

datatype error =
    ValueError string
  | AttributeError string
  | FileNotFoundError string
  | OSError string

text \<open>\<open>str(e)\<close>, as the log messages interpolate it.\<close>

fun error_str :: "error \<Rightarrow> string" where
  "error_str (ValueError m) = m"
| "error_str (AttributeError m) = m"
| "error_str (FileNotFoundError m) = m"
| "error_str (OSError m) = m"

datatype level = INFO | WARNING | ERROR

text \<open>
  The external calls the module makes, as they are recorded in the trace. \<open>Subprocess\<close>
  carries the argument vector and the \<open>timeout\<close> argument of \<open>subprocess.run\<close> (\<open>None\<close>
  when the call passes none); \<open>Urlopen\<close> carries the URL and the timeout in seconds;
  \<open>ShellCopyHere\<close> the archive, the destination and the flags.
\<close>

datatype event =
    Subprocess "string list" "nat option"
  | InternetOpenW
  | InternetOpenUrlW string
  | InternetCloseHandle nat
  | URLDownloadToFileW string path
  | Urlopen string nat
  | ShellCopyHere path path nat
  | Mkdtemp path
  | Rmtree path

text \<open>
  One answer of \<open>InternetReadFile\<close>: the call returns FALSE, the foreign call raises, or
  it returns TRUE with the bytes it placed in the buffer (none at the end of the stream).
\<close>

datatype read_result = ReadFailed | ReadRaised error | ReadOk string

datatype fs_op = OpRead | OpWrite | OpRemove | OpRmtree | OpMkdir | OpMove

text \<open>
  A value as \<open>json.load\<close> returns it: \<open>None\<close>, a \<open>bool\<close>, an \<open>int\<close>, a \<open>float\<close>, a \<open>str\<close>,
  a \<open>list\<close> or a \<open>dict\<close>. The module takes the truth value of such a value and formats it
  with \<open>str()\<close>. For a float, a list and a dict the embedding does not compute the text of
  \<open>str()\<close>: the value carries it, and a float also carries whether it is different from zero.
  The version that \<open>get_edge_version\<close> returns is such a value: a \<open>str\<close> from every strategy
  but the version file, from which it is whatever the document holds.
\<close>

datatype json =
    JNull
  | JBool bool
  | JInt int
  | JFloat bool string
  | JString string
  | JArray "json list" string
  | JObject "(string \<times> json) list" string

text \<open>\<open>bool(v)\<close>, as \<open>if v:\<close> and \<open>not v\<close> take it.\<close>

fun truthy :: "json \<Rightarrow> bool" where
  "truthy JNull = False"
| "truthy (JBool b) = b"
| "truthy (JInt i) = (i \<noteq> 0)"
| "truthy (JFloat nonzero text) = nonzero"
| "truthy (JString s) = (s \<noteq> [])"
| "truthy (JArray items text) = (items \<noteq> [])"
| "truthy (JObject members text) = (members \<noteq> [])"

text \<open>\<open>str(v)\<close>, as an f-string interpolates it.\<close>

fun py_str :: "json \<Rightarrow> string" where
  "py_str JNull = ''None''"
| "py_str (JBool b) = (if b then ''True'' else ''False'')"
| "py_str (JInt i) = show_int i"
| "py_str (JFloat nonzero text) = text"
| "py_str (JString s) = s"
| "py_str (JArray items text) = text"
| "py_str (JObject members text) = text"

text \<open>\<open>type(v).__name__\<close>\<close>

fun type_name :: "json \<Rightarrow> string" where
  "type_name JNull = ''NoneType''"
| "type_name (JBool b) = ''bool''"
| "type_name (JInt i) = ''int''"
| "type_name (JFloat nonzero text) = ''float''"
| "type_name (JString s) = ''str''"
| "type_name (JArray items text) = ''list''"
| "type_name (JObject members text) = ''dict''"

text \<open>
  The answers of the outside world.
  \<^item> \<open>script_dir\<close> is \<open>os.path.dirname(os.path.abspath(sys.argv[0]))\<close>, \<open>executable_dir\<close> is
    \<open>os.path.dirname(sys.executable)\<close>, \<open>module_dir\<close> is
    \<open>os.path.dirname(os.path.abspath(__file__))\<close>, \<open>tempdir\<close> is \<open>tempfile.gettempdir()\<close>.
  \<^item> \<open>mkdtemp_name\<close>: the name \<open>tempfile.mkdtemp()\<close> picks under \<open>tempdir\<close>, or its exception.
  \<^item> \<open>deny op p\<close>: the exception with which the operating system refuses the operation on
    the path (a file held open by another process, missing rights), if it does.
  \<^item> \<open>subprocess_run argv\<close>: the standard output of the utility once it has exited, or the
    exception \<open>subprocess.run\<close> raises. The module passes no timeout, so the call waits
    for the utility however long it runs; the embedding describes the runs in which every
    external call comes back.
  \<^item> \<open>internet_open\<close>, \<open>internet_open_url url\<close>: the handles returned (0 is NULL);
    \<open>internet_read_file url\<close>: the answers of the successive \<open>InternetReadFile\<close> calls;
    after the last one listed the stream is at its end.
  \<^item> \<open>url_download_to_file url\<close>: the HRESULT of \<open>URLDownloadToFileW\<close> and what it left
    in the destination file (\<open>None\<close>: it wrote no file), or the exception of the call.
    The module never gets as far as this call, see \<open>url_download\<close>.
  \<^item> \<open>urlopen url\<close>: the exception of \<open>urllib.request.urlopen\<close>, or the part of the body
    the response delivers and the exception that interrupts it, if one does.
  \<^item> \<open>decode bytes\<close>: the text that a file with these bytes gives when it is read in text
    mode, before the line ends are translated, or the exception of the codec.
  \<^item> \<open>json_load text\<close>: the value \<open>json.load\<close> makes of the text, or its exception.
  \<^item> \<open>create_object\<close>: the exception of \<open>comtypes.client.CreateObject\<close>, if it raises.
  \<^item> \<open>zip_items bytes\<close>: the entries the shell shows for an archive with these bytes
    (\<open>None\<close>: the shell cannot open it, \<open>NameSpace\<close> returns nothing).
  \<^item> \<open>copy_here\<close>: the exception of \<open>CopyHere\<close>, if it raises.
\<close>

record env =
  script_dir :: path
  executable_dir :: path
  module_dir :: path
  tempdir :: path
  mkdtemp_name :: "error + string"
  deny :: "fs_op \<Rightarrow> path \<Rightarrow> error option"
  subprocess_run :: "string list \<Rightarrow> error + string"
  internet_open :: nat
  internet_open_url :: "string \<Rightarrow> nat"
  internet_read_file :: "string \<Rightarrow> read_result list"
  url_download_to_file :: "string \<Rightarrow> error + int \<times> string option"
  urlopen :: "string \<Rightarrow> error + string \<times> error option"
  decode :: "string \<Rightarrow> error + string"
  json_load :: "string \<Rightarrow> error + json"
  create_object :: "error option"
  zip_items :: "string \<Rightarrow> (string \<times> node) list option"
  copy_here :: "error option"

text \<open>The state the module changes: the files, the log, the trace of calls, the console.\<close>

record world =
  disk :: node
  logged :: "(level \<times> string) list"
  calls :: "event list"
  printed :: "string list"

text \<open>An action runs on a state and ends with an exception or a value, in a new state.\<close>

type_synonym 'a io = "world \<Rightarrow> (error + 'a) \<times> world"

definition io_return :: "'a \<Rightarrow> 'a io" where
  "io_return x w = (Inr x, w)"

definition io_raise :: "error \<Rightarrow> 'a io" where
  "io_raise e w = (Inl e, w)"

definition io_bind :: "'a io \<Rightarrow> ('a \<Rightarrow> 'b io) \<Rightarrow> 'b io" where
  "io_bind m f w = (case m w of (Inl e, w') \<Rightarrow> (Inl e, w') | (Inr x, w') \<Rightarrow> f x w')"

definition io_then :: "unit io \<Rightarrow> 'b io \<Rightarrow> 'b io" where
  "io_then m n = io_bind m (\<lambda>u. n)"

text \<open>\<open>try: m except Exception as e: h e\<close>\<close>

definition try_except :: "'a io \<Rightarrow> (error \<Rightarrow> 'a io) \<Rightarrow> 'a io" where
  "try_except m h w = (case m w of (Inl e, w') \<Rightarrow> h e w' | (Inr x, w') \<Rightarrow> (Inr x, w'))"

text \<open>
  \<open>try: m finally: c\<close>: \<open>c\<close> runs however \<open>m\<close> ends, and the outcome of \<open>m\<close> stands unless
  \<open>c\<close> itself raises.
\<close>

definition try_finally :: "'a io \<Rightarrow> unit io \<Rightarrow> 'a io" where
  "try_finally m c w =
     (case m w of (r, w') \<Rightarrow>
        (case c w' of (Inl e, w'') \<Rightarrow> (Inl e, w'') | (Inr u, w'') \<Rightarrow> (r, w'')))"

definition logging :: "level \<Rightarrow> string \<Rightarrow> unit io" where
  "logging lv msg w = (Inr (), w\<lparr>logged := logged w @ [(lv, msg)]\<rparr>)"

definition call :: "event \<Rightarrow> unit io" where
  "call ev w = (Inr (), w\<lparr>calls := calls w @ [ev]\<rparr>)"

definition print :: "string \<Rightarrow> unit io" where
  "print s w = (Inr (), w\<lparr>printed := printed w @ [s]\<rparr>)"

subsection \<open>File operations\<close>

definition os_path_exists :: "path \<Rightarrow> bool io" where
  "os_path_exists p w = (Inr (path_exists (disk w) p), w)"

text \<open>\<open>os.remove\<close>\<close>

definition os_remove :: "env \<Rightarrow> path \<Rightarrow> unit io" where
  "os_remove E p w =
     (case deny E OpRemove p of
        Some e \<Rightarrow> (Inl e, w)
      | None \<Rightarrow>
         (case fs_lookup (disk w) p of
            Some (File d) \<Rightarrow> (Inr (), w\<lparr>disk := fs_del p (disk w)\<rparr>)
          | Some (Dir cs) \<Rightarrow> (Inl (OSError (path_str p)), w)
          | None \<Rightarrow> (Inl (FileNotFoundError (path_str p)), w)))"

text \<open>\<open>shutil.rmtree\<close>: a refused removal leaves the directory in place.\<close>

definition shutil_rmtree :: "env \<Rightarrow> path \<Rightarrow> unit io" where
  "shutil_rmtree E p =
     io_then (call (Rmtree p))
       (\<lambda>w. case deny E OpRmtree p of
               Some e \<Rightarrow> (Inl e, w)
             | None \<Rightarrow>
                (case fs_lookup (disk w) p of
                   Some (Dir cs) \<Rightarrow> (Inr (), w\<lparr>disk := fs_del p (disk w)\<rparr>)
                 | Some (File d) \<Rightarrow> (Inl (OSError (path_str p)), w)
                 | None \<Rightarrow> (Inl (FileNotFoundError (path_str p)), w)))"

text \<open>\<open>with open(p, 'wb') as f: f.write(data)\<close>\<close>

definition write_file :: "env \<Rightarrow> path \<Rightarrow> string \<Rightarrow> unit io" where
  "write_file E p data w =
     (case deny E OpWrite p of
        Some e \<Rightarrow> (Inl e, w)
      | None \<Rightarrow>
         (if p = [] then (Inl (FileNotFoundError (path_str p)), w)
          else case fs_lookup (disk w) (dirname p) of
                 None \<Rightarrow> (Inl (FileNotFoundError (path_str p)), w)
               | Some (File d) \<Rightarrow> (Inl (FileNotFoundError (path_str p)), w)
               | Some (Dir cs) \<Rightarrow>
                  (case fs_lookup (disk w) p of
                     Some (Dir ds) \<Rightarrow> (Inl (OSError (path_str p)), w)
                   | _ \<Rightarrow> (Inr (), w\<lparr>disk := fs_put p (File data) (disk w)\<rparr>))))"

text \<open>
  Opening a file for appending, as \<open>logging.FileHandler\<close> does: the file is created when
  it is missing and left as it is otherwise.
\<close>

definition open_append :: "env \<Rightarrow> path \<Rightarrow> unit io" where
  "open_append E p w =
     (case deny E OpWrite p of
        Some e \<Rightarrow> (Inl e, w)
      | None \<Rightarrow>
         (if p = [] then (Inl (FileNotFoundError (path_str p)), w)
          else case fs_lookup (disk w) (dirname p) of
                 None \<Rightarrow> (Inl (FileNotFoundError (path_str p)), w)
               | Some (File d) \<Rightarrow> (Inl (FileNotFoundError (path_str p)), w)
               | Some (Dir cs) \<Rightarrow>
                  (case fs_lookup (disk w) p of
                     Some (Dir ds) \<Rightarrow> (Inl (OSError (path_str p)), w)
                   | Some (File d) \<Rightarrow> (Inr (), w)
                   | None \<Rightarrow> (Inr (), w\<lparr>disk := fs_put p (File []) (disk w)\<rparr>))))"

text \<open>
  \<open>with open(p, 'r') as f: f.read()\<close>: the file is read in text mode, so its bytes are
  decoded and the line ends translated.
\<close>

definition read_file :: "env \<Rightarrow> path \<Rightarrow> string io" where
  "read_file E p w =
     (case deny E OpRead p of
        Some e \<Rightarrow> (Inl e, w)
      | None \<Rightarrow>
         (case fs_lookup (disk w) p of
            Some (File d) \<Rightarrow>
              (case decode E d of
                 Inl e \<Rightarrow> (Inl e, w)
               | Inr text \<Rightarrow> (Inr (universal_newlines text), w))
          | Some (Dir cs) \<Rightarrow> (Inl (OSError (path_str p)), w)
          | None \<Rightarrow> (Inl (FileNotFoundError (path_str p)), w)))"

text \<open>\<open>os.makedirs\<close>\<close>

definition os_makedirs :: "env \<Rightarrow> path \<Rightarrow> unit io" where
  "os_makedirs E p w =
     (case deny E OpMkdir p of
        Some e \<Rightarrow> (Inl e, w)
      | None \<Rightarrow>
         (if path_exists (disk w) p then (Inl (OSError (path_str p)), w)
          else case fs_lookup (fs_makedirs [] p (disk w)) p of
                 Some (Dir cs) \<Rightarrow> (Inr (), w\<lparr>disk := fs_makedirs [] p (disk w)\<rparr>)
               | _ \<Rightarrow> (Inl (OSError (path_str p)), w)))"

text \<open>\<open>tempfile.mkdtemp()\<close>\<close>

definition tempfile_mkdtemp :: "env \<Rightarrow> path io" where
  "tempfile_mkdtemp E w =
     (case mkdtemp_name E of
        Inl e \<Rightarrow> (Inl e, w)
      | Inr name \<Rightarrow>
         (Inr (join (tempdir E) name),
          w\<lparr>disk := fs_put (join (tempdir E) name) (Dir []) (disk w),
            calls := calls w @ [Mkdtemp (join (tempdir E) name)]\<rparr>))"

text \<open>
  \<open>shutil.move(src, dst)\<close>: into \<open>dst\<close> when that is a directory, onto \<open>dst\<close> otherwise.
\<close>

definition shutil_move :: "env \<Rightarrow> path \<Rightarrow> path \<Rightarrow> unit io" where
  "shutil_move E src dst w =
     (case deny E OpMove src of
        Some e \<Rightarrow> (Inl e, w)
      | None \<Rightarrow>
         (case fs_lookup (disk w) src of
            None \<Rightarrow> (Inl (FileNotFoundError (path_str src)), w)
          | Some n \<Rightarrow>
             (if src = [] then (Inl (OSError (path_str src)), w)
              else let target = (case fs_lookup (disk w) dst of
                                   Some (Dir cs) \<Rightarrow> join dst (last src)
                                 | _ \<Rightarrow> dst)
                   in (Inr (), w\<lparr>disk := fs_put target n (fs_del src (disk w))\<rparr>))))"

subsection \<open>\<open>inet_read\<close> and \<open>download_file_inet_read\<close>\<close>

text \<open>
  The \<open>while True\<close> loop of \<open>inet_read\<close> over the answers of \<open>InternetReadFile\<close>, with the
  bytes accumulated so far. An answer has at most \<open>buffer_size = 8192\<close> bytes.
\<close>

fun read_loop :: "read_result list \<Rightarrow> string \<Rightarrow> error + string" where
  "read_loop [] data = Inr data"
| "read_loop (ReadFailed # rs) data = Inr data"
| "read_loop (ReadRaised e # rs) data = Inl e"
| "read_loop (ReadOk chunk # rs) data =
     (if length chunk = 0 then Inr data else read_loop rs (data @ chunk))"

definition inet_read :: "env \<Rightarrow> string \<Rightarrow> string option io" where
  "inet_read E url =
     try_except
       (io_then (logging INFO (''Using InetRead equivalent to download: '' @ url))
       (io_then (call InternetOpenW)
         (if internet_open E = 0
          then io_then (logging ERROR ''Failed to initialize WinINet'') (io_return None)
          else
            try_finally
              (io_then (call (InternetOpenUrlW url))
                (if internet_open_url E url = 0
                 then io_then (logging ERROR (''Failed to open URL: '' @ url)) (io_return None)
                 else
                   try_finally
                     (case read_loop (internet_read_file E url) [] of
                        Inl e \<Rightarrow> io_raise e
                      | Inr data \<Rightarrow>
                          io_then (logging INFO (''Successfully downloaded '' @ show_nat (length data)
                                                  @ '' bytes using InetRead equivalent''))
                            (io_return (Some data)))
                     (call (InternetCloseHandle (internet_open_url E url)))))
              (call (InternetCloseHandle (internet_open E))))))
       (\<lambda>e. io_then (logging ERROR (''Error in InetRead equivalent: '' @ error_str e))
              (io_return None))"

definition download_file_inet_read :: "env \<Rightarrow> string \<Rightarrow> path \<Rightarrow> bool io" where
  "download_file_inet_read E url save_path =
     try_except
       (io_bind (inet_read E url) (\<lambda>data.
          case data of
            None \<Rightarrow> io_return False
          | Some d \<Rightarrow>
              io_then (write_file E save_path d)
              (io_then (logging INFO (''File saved to: '' @ path_str save_path))
                (io_return True))))
       (\<lambda>e. io_then (logging ERROR (''Error saving downloaded file: '' @ error_str e))
              (io_return False))"

subsection \<open>\<open>extract_zip_with_shell\<close>\<close>

text \<open>
  \<open>os.walk\<close> yields tuples of three items, the directory, the names of its subdirectories
  and the names of its files. A path and a list of names are both lists of strings, so a
  tuple is the list of its items.
\<close>

definition walk_tuples :: "node \<Rightarrow> path \<Rightarrow> string list list list" where
  "walk_tuples fs d = map (\<lambda>t. [fst t, fst (snd t), snd (snd t)]) (os_walk fs d)"

text \<open>The loop header \<open>for root, files in ...\<close> unpacks each item into two names.\<close>

fun unpack2 :: "'a list \<Rightarrow> error + 'a \<times> 'a" where
  "unpack2 [a, b] = Inr (a, b)"
| "unpack2 (a # b # c # t) = Inl (ValueError ''too many values to unpack (expected 2)'')"
| "unpack2 t = Inl (ValueError (''not enough values to unpack (expected 2, got ''
                                  @ show_nat (length t) @ '')''))"

definition driver_name :: string where
  "driver_name = ''msedgedriver.exe''"

text \<open>Lines 146 to 152: the search of the extracted tree, \<open>found\<close> as the result.\<close>

fun find_in_walk :: "string list list list \<Rightarrow> error + bool" where
  "find_in_walk [] = Inr False"
| "find_in_walk (t # ts) =
     (case unpack2 t of
        Inl e \<Rightarrow> Inl e
      | Inr (root, files) \<Rightarrow>
          if list_ex (\<lambda>file. lower file = driver_name) files then Inr True
          else find_in_walk ts)"

text \<open>\<open>shell.NameSpace(zip_path)\<close> and \<open>.Items()\<close>: the entries of the archive, if it opens.\<close>

definition shell_namespace_items :: "env \<Rightarrow> path \<Rightarrow> (string \<times> node) list option io" where
  "shell_namespace_items E zip_path w =
     (Inr (case fs_lookup (disk w) zip_path of
             Some (File d) \<Rightarrow> zip_items E d
           | _ \<Rightarrow> None), w)"

text \<open>
  \<open>shell.NameSpace(extract_path).CopyHere(zip_items, 20)\<close>: \<open>NameSpace\<close> gives nothing for a
  path that is not a folder, and the method call on it raises; otherwise every entry is
  stored in the folder under its name.
\<close>

definition shell_copy_here ::
  "env \<Rightarrow> path \<Rightarrow> path \<Rightarrow> (string \<times> node) list \<Rightarrow> unit io" where
  "shell_copy_here E zip_path extract_path items w =
     (case fs_lookup (disk w) extract_path of
        Some (Dir cs) \<Rightarrow>
          (case copy_here E of
             Some e \<Rightarrow> (Inl e, w\<lparr>calls := calls w @ [ShellCopyHere zip_path extract_path 20]\<rparr>)
           | None \<Rightarrow>
              (Inr (), w\<lparr>disk := fold (\<lambda>it fs. fs_put (join extract_path (fst it)) (snd it) fs)
                                        items (disk w),
                         calls := calls w @ [ShellCopyHere zip_path extract_path 20]\<rparr>))
      | _ \<Rightarrow> (Inl (AttributeError ''CopyHere''), w))"

definition extract_zip_with_shell :: "env \<Rightarrow> path \<Rightarrow> path \<Rightarrow> bool io" where
  "extract_zip_with_shell E zip_path extract_path =
     try_except
       (io_then (logging INFO (''Extracting '' @ path_str zip_path @ '' to '' @ path_str extract_path
                                @ '' using Shell.Application''))
       (io_bind (os_path_exists extract_path) (\<lambda>there.
        io_then (if \<not> there then os_makedirs E extract_path else io_return ())
       (io_then (case create_object E of Some e \<Rightarrow> io_raise e | None \<Rightarrow> io_return ())
       (io_bind (shell_namespace_items E zip_path) (\<lambda>zip_folder.
          case zip_folder of
            None \<Rightarrow>
              io_then (logging ERROR (''Could not access ZIP file: '' @ path_str zip_path))
                (io_return False)
          | Some items \<Rightarrow>
              io_then (shell_copy_here E zip_path extract_path items)
             (io_bind (os_path_exists (join extract_path driver_name)) (\<lambda>extracted.
                if \<not> extracted then
                  io_bind (\<lambda>w. (find_in_walk (walk_tuples (disk w) extract_path), w)) (\<lambda>found.
                    if \<not> found then
                      io_then (logging WARNING ''msedgedriver.exe not found after extraction.'')
                        (io_return False)
                    else
                      io_then (logging INFO ''ZIP extraction completed using Shell.Application'')
                        (io_return True))
                else
                  io_then (logging INFO ''ZIP extraction completed using Shell.Application'')
                    (io_return True)))))))))
       (\<lambda>e. io_then (logging ERROR (''Error extracting ZIP with Shell.Application: '' @ error_str e))
              (io_return False))"

subsection \<open>\<open>download_file_with_wininet\<close>\<close>

text \<open>
  The names of \<open>ctypes.wintypes\<close> among those the module refers to: \<open>HRESULT\<close> is not one of
  them (the library defines it in \<open>ctypes\<close>), and the reference to \<open>wintypes.HRESULT\<close> raises
  \<open>AttributeError\<close>.
\<close>

definition wintypes_names :: "string list" where
  "wintypes_names = [''BOOL'', ''DWORD'', ''HANDLE'', ''LPCWSTR'', ''LPVOID'']"

definition wintypes_attr :: "string \<Rightarrow> unit io" where
  "wintypes_attr name =
     (if name \<in> set wintypes_names then io_return ()
      else io_raise (AttributeError (''module '' @ [squote] @ ''ctypes.wintypes'' @ [squote]
                                      @ '' has no attribute '' @ [squote] @ name @ [squote])))"

text \<open>
  Lines 170 to 194, the inner \<open>try\<close>. The result says whether the function returns
  \<open>True\<close> there. The prototype of \<open>URLDownloadToFileW\<close> is set up before the call (lines
  177 to 181), and line 181 refers to \<open>wintypes.HRESULT\<close>: the \<open>except\<close> of line 193 is
  taken before the call is made, so that the download is always left to urllib.
\<close>

definition url_download :: "env \<Rightarrow> string \<Rightarrow> path \<Rightarrow> bool io" where
  "url_download E url save_path =
     try_except
       (io_then (wintypes_attr ''LPVOID'')
       (io_then (wintypes_attr ''LPCWSTR'')
       (io_then (wintypes_attr ''LPCWSTR'')
       (io_then (wintypes_attr ''DWORD'')
       (io_then (wintypes_attr ''LPVOID'')
       (io_then (wintypes_attr ''HRESULT'')
       (io_then (call (URLDownloadToFileW url save_path))
         (case url_download_to_file E url of
            Inl e \<Rightarrow> io_raise e
          | Inr (result, written) \<Rightarrow>
              io_then (\<lambda>w. (Inr (), case written of
                                      None \<Rightarrow> w
                                    | Some d \<Rightarrow> w\<lparr>disk := fs_put save_path (File d) (disk w)\<rparr>))
                (if result = 0
                 then io_then (logging INFO (''Successfully downloaded to '' @ path_str save_path
                                              @ '' using WinINet''))
                        (io_return True)
                 else io_then (logging WARNING (''WinINet download failed with code ''
                                                 @ show_int result @ '', trying alternative''))
                        (io_return False))))))))))
       (\<lambda>e. io_then (logging WARNING (''WinINet API error: '' @ error_str e @ '', trying alternative''))
              (io_return False))"

text \<open>
  Lines 211 to 213: \<open>urlopen(req, timeout=30)\<close>, then the destination is opened for writing
  and the body is copied into it; an interrupted body leaves the part that arrived.
\<close>

definition urllib_download :: "env \<Rightarrow> string \<Rightarrow> path \<Rightarrow> unit io" where
  "urllib_download E url save_path =
     io_then (call (Urlopen url 30))
       (case urlopen E url of
          Inl e \<Rightarrow> io_raise e
        | Inr (body, interrupted) \<Rightarrow>
            io_then (write_file E save_path body)
              (case interrupted of Some e \<Rightarrow> io_raise e | None \<Rightarrow> io_return ()))"

definition download_file_with_wininet :: "env \<Rightarrow> string \<Rightarrow> path \<Rightarrow> bool io" where
  "download_file_with_wininet E url save_path =
     try_except
       (io_then (logging INFO (''Attempting to download '' @ url @ '' using WinINet API''))
       (io_bind (url_download E url save_path) (\<lambda>returned.
          if returned then io_return True
          else
            io_then (logging INFO ''Attempting to download with urllib'')
           (io_then (urllib_download E url save_path)
           (io_then (logging INFO (''Successfully downloaded to '' @ path_str save_path
                                    @ '' using urllib''))
             (io_return True))))))
       (\<lambda>e. io_then (logging ERROR (''Error downloading file with WinINet and urllib: '' @ error_str e))
              (io_return False))"

subsection \<open>\<open>get_edge_version\<close>\<close>

definition edge_dir_x86 :: path where
  "edge_dir_x86 = [''C:'', ''Program Files (x86)'', ''Microsoft'', ''Edge'', ''Application'']"

definition edge_dir_x64 :: path where
  "edge_dir_x64 = [''C:'', ''Program Files'', ''Microsoft'', ''Edge'', ''Application'']"

definition edge_paths :: "path list" where
  "edge_paths = [join edge_dir_x86 ''msedge.exe'', join edge_dir_x64 ''msedge.exe'']"

definition fallback_version :: string where
  "fallback_version = ''136.0.3240.64''"

definition latest_stable_url :: string where
  "latest_stable_url = ''https://msedgedriver.azureedge.net/LATEST_STABLE''"

text \<open>\<open>subprocess.run(argv, capture_output=True, text=True, timeout=t)\<close> and its \<open>stdout\<close>.\<close>

definition subprocess :: "env \<Rightarrow> string list \<Rightarrow> nat option \<Rightarrow> string io" where
  "subprocess E argv timeout =
     io_then (call (Subprocess argv timeout))
       (case subprocess_run E argv of Inl e \<Rightarrow> io_raise e | Inr out \<Rightarrow> io_return out)"

definition wmic_query :: "path \<Rightarrow> string" where
  "wmic_query edge_path =
     ''name='' @ [dquote]
       @ replace_char dquote [backslash, dquote]
           (replace_char backslash [backslash, backslash] (path_str edge_path))
       @ [dquote]"

definition wmic_argv :: "path \<Rightarrow> string list" where
  "wmic_argv edge_path =
     [''wmic'', ''datafile'', ''where'', wmic_query edge_path, ''get'', ''Version'', ''/value'']"

definition reg_argv :: "string list" where
  "reg_argv =
     [''reg'', ''query'',
      path_str [''HKEY_CURRENT_USER'', ''Software'', ''Microsoft'', ''Edge'', ''BLBeacon''],
      ''/v'', ''version'']"

text \<open>
  The strategies of \<open>get_edge_version\<close>. Each gives \<open>Some v\<close> when the function returns
  \<open>v\<close> there and \<open>None\<close> when control goes on to the next one. Neither \<open>subprocess.run\<close>
  call passes a \<open>timeout\<close>.

  Method 1, lines 229 to 249: the loop over \<open>edge_paths\<close> and its \<open>except\<close>.
\<close>

fun wmic_loop :: "env \<Rightarrow> path list \<Rightarrow> string option io" where
  "wmic_loop E [] = io_return None"
| "wmic_loop E (edge_path # rest) =
     io_bind (os_path_exists edge_path) (\<lambda>there.
       if there then
         io_bind (subprocess E (wmic_argv edge_path) None) (\<lambda>out.
           case search_wmic out of
             Some g \<Rightarrow>
               io_then (logging INFO (''Edge version detected (wmic): '' @ strip g))
                 (io_return (Some (strip g)))
           | None \<Rightarrow> wmic_loop E rest)
       else wmic_loop E rest)"

definition version_from_wmic :: "env \<Rightarrow> string option io" where
  "version_from_wmic E =
     try_except (wmic_loop E edge_paths)
       (\<lambda>e. io_then (logging WARNING (''Could not get Edge version using wmic: '' @ error_str e))
              (io_return None))"

text \<open>Method 2, lines 252 to 263.\<close>

definition version_from_registry :: "env \<Rightarrow> string option io" where
  "version_from_registry E =
     try_except
       (io_bind (subprocess E reg_argv None) (\<lambda>out.
          case search_reg out of
            Some g \<Rightarrow>
              io_then (logging INFO (''Edge version detected (registry): '' @ strip g))
                (io_return (Some (strip g)))
          | None \<Rightarrow> io_return None))
       (\<lambda>e. io_then (logging WARNING (''Could not get Edge version using registry: '' @ error_str e))
              (io_return None))"

text \<open>\<open>d.get(k, default)\<close> on the items of a \<open>dict\<close>.\<close>

definition dict_get :: "(string \<times> 'v) list \<Rightarrow> string \<Rightarrow> 'v \<Rightarrow> 'v" where
  "dict_get d k dflt = (case map_of d k of Some v \<Rightarrow> v | None \<Rightarrow> dflt)"

text \<open>\<open>v.get(k, default)\<close>: a method of a \<open>dict\<close> only.\<close>

definition py_get :: "json \<Rightarrow> string \<Rightarrow> json \<Rightarrow> json io" where
  "py_get v k dflt =
     (case v of
        JObject members text \<Rightarrow> io_return (dict_get members k dflt)
      | _ \<Rightarrow> io_raise (AttributeError ([squote] @ type_name v @ [squote]
                                      @ '' object has no attribute '' @ [squote] @ ''get''
                                      @ [squote])))"

text \<open>
  Method 3, lines 266 to 281. The second component is the local variable \<open>edge_version\<close>
  as the method leaves it (the empty string until line 276 has assigned it).
\<close>

definition version_from_file :: "env \<Rightarrow> (json option \<times> json) io" where
  "version_from_file E =
     try_except
       (io_bind (os_path_exists edge_dir_x86) (\<lambda>there86.
        io_bind (io_return (if \<not> there86 then edge_dir_x64 else edge_dir_x86)) (\<lambda>edge_dir.
        io_bind (os_path_exists edge_dir) (\<lambda>there.
          if there then
            io_bind (os_path_exists (join edge_dir ''product_versions.json'')) (\<lambda>file_there.
              if file_there then
                io_bind (read_file E (join edge_dir ''product_versions.json'')) (\<lambda>text.
                  case json_load E text of
                    Inl e \<Rightarrow> io_raise e
                  | Inr data \<Rightarrow>
                      io_bind (py_get data ''product'' (JObject [] ''{}'')) (\<lambda>product.
                      io_bind (py_get product ''version'' (JString [])) (\<lambda>edge_version.
                        if truthy edge_version then
                          io_then (logging INFO (''Edge version detected (version file): ''
                                                  @ py_str edge_version))
                            (io_return (Some edge_version, edge_version))
                        else io_return (None, edge_version))))
              else io_return (None, JString []))
          else io_return (None, JString [])))))
       (\<lambda>e. io_then (logging WARNING (''Could not get Edge version from version file: '' @ error_str e))
              (io_return (None, JString [])))"

text \<open>Lines 286 to 296: the remote lookup of the latest stable version.\<close>

definition version_from_remote :: "env \<Rightarrow> string option io" where
  "version_from_remote E =
     try_except
       (io_bind (io_return (join (tempdir E) ''edge_version.txt'')) (\<lambda>temp_file.
        io_bind (download_file_with_wininet E latest_stable_url temp_file) (\<lambda>ok.
          if ok then
            io_bind (read_file E temp_file) (\<lambda>text.
            io_then (os_remove E temp_file)
           (io_then (logging INFO (''Using latest stable Edge driver version: '' @ strip text))
             (io_return (Some (strip text)))))
          else io_return None)))
       (\<lambda>e. io_then (logging WARNING (''Could not get latest version: '' @ error_str e))
              (io_return None))"

text \<open>Lines 284 to 302.\<close>

definition version_default :: "env \<Rightarrow> json \<Rightarrow> json io" where
  "version_default E edge_version =
     (if \<not> truthy edge_version then
        io_then (logging WARNING ''Could not detect Edge version, using default latest version'')
       (io_bind (version_from_remote E) (\<lambda>r.
          case r of
            Some v \<Rightarrow> io_return (JString v)
          | None \<Rightarrow>
              io_then (logging INFO (''Using fallback Edge version: '' @ fallback_version))
                (io_return (JString fallback_version))))
      else io_return edge_version)"

text \<open>
  Lines 224 to 309. The strategies that read the output of a utility or the version marker
  give a \<open>str\<close>; the version file gives the value of the document.
\<close>

definition get_edge_version :: "env \<Rightarrow> json io" where
  "get_edge_version E =
     try_except
       (io_then (logging INFO ''Detecting Edge browser version...'')
       (io_bind (version_from_wmic E) (\<lambda>r1.
          case r1 of
            Some v \<Rightarrow> io_return (JString v)
          | None \<Rightarrow>
              io_bind (version_from_registry E) (\<lambda>r2.
                case r2 of
                  Some v \<Rightarrow> io_return (JString v)
                | None \<Rightarrow>
                    io_bind (version_from_file E) (\<lambda>r3.
                      case fst r3 of
                        Some v \<Rightarrow> io_return v
                      | None \<Rightarrow> version_default E (snd r3))))))
       (\<lambda>e. io_then (logging ERROR (''Error detecting Edge version: '' @ error_str e))
             (io_then (logging INFO (''Using fallback Edge version due to error: '' @ fallback_version))
               (io_return (JString fallback_version))))"

subsection \<open>\<open>get_edge_driver_path\<close>\<close>

definition possible_driver_locations :: "env \<Rightarrow> path list" where
  "possible_driver_locations E =
     [join (script_dir E) driver_name, join (executable_dir E) driver_name]"

text \<open>Lines 327 to 330: the first location that exists is returned.\<close>

fun cache_check :: "path list \<Rightarrow> path option io" where
  "cache_check [] = io_return None"
| "cache_check (p # ps) =
     io_bind (os_path_exists p) (\<lambda>there.
       if there then
         io_then (logging INFO (''Edge driver found at: '' @ path_str p)) (io_return (Some p))
       else cache_check ps)"

text \<open>
  Lines 373 to 379, the loop over the files of one directory: \<open>Some p\<close> when the function
  returns \<open>p\<close> there.
\<close>

fun move_found :: "env \<Rightarrow> path \<Rightarrow> path \<Rightarrow> path \<Rightarrow> string list \<Rightarrow> path option io" where
  "move_found E base_path driver_path root [] = io_return None"
| "move_found E base_path driver_path root (file # files) =
     (if lower file = driver_name then
        io_bind (io_return (join root file)) (\<lambda>found_path.
        io_then (if dirname found_path \<noteq> base_path then
                   io_then (shutil_move E found_path driver_path)
                     (logging INFO (''Moved Edge driver to: '' @ path_str driver_path))
                 else io_return ())
       (io_bind (os_path_exists driver_path) (\<lambda>there.
          io_return (Some (if there then driver_path else found_path)))))
      else move_found E base_path driver_path root files)"

text \<open>Lines 372 to 379, the loop over what \<open>os.walk(base_path)\<close> yields.\<close>

fun find_and_move :: "env \<Rightarrow> path \<Rightarrow> path \<Rightarrow> string list list list \<Rightarrow> path option io" where
  "find_and_move E base_path driver_path [] = io_return None"
| "find_and_move E base_path driver_path (t # ts) =
     (case unpack2 t of
        Inl e \<Rightarrow> io_raise e
      | Inr (root, files) \<Rightarrow>
          io_bind (move_found E base_path driver_path root files) (\<lambda>r.
            case r of
              Some p \<Rightarrow> io_return (Some p)
            | None \<Rightarrow> find_and_move E base_path driver_path ts))"

text \<open>Lines 366 to 382: the check of the extracted driver.\<close>

definition reconcile :: "env \<Rightarrow> path \<Rightarrow> path \<Rightarrow> path option io" where
  "reconcile E base_path driver_path =
     io_bind (os_path_exists driver_path) (\<lambda>there.
       if there then
         io_then (logging INFO (''Edge driver downloaded and extracted to: '' @ path_str driver_path))
           (io_return (Some driver_path))
       else
         io_bind (\<lambda>w. (Inr (walk_tuples (disk w) base_path), w)) (\<lambda>ts.
         io_bind (find_and_move E base_path driver_path ts) (\<lambda>r.
           case r of
             Some p \<Rightarrow> io_return (Some p)
           | None \<Rightarrow>
               io_then (logging ERROR ''Edge driver not found in extracted files.'')
                 (io_return None))))"

definition download_url :: "string \<Rightarrow> string" where
  "download_url edge_version =
     ''https://msedgedriver.azureedge.net/'' @ edge_version @ ''/edgedriver_win64.zip''"

text \<open>
  Lines 344 to 382: the body of the inner \<open>try\<close>. The f-string of line 345 formats the
  version with \<open>str()\<close>.
\<close>

definition acquire :: "env \<Rightarrow> path \<Rightarrow> path \<Rightarrow> json \<Rightarrow> path \<Rightarrow> path option io" where
  "acquire E base_path driver_path edge_version temp_dir =
     io_bind (io_return (join temp_dir ''edgedriver.zip'')) (\<lambda>zip_path.
     io_then (logging INFO (''Downloading Edge driver from: '' @ download_url (py_str edge_version)))
    (io_bind (download_file_inet_read E (download_url (py_str edge_version)) zip_path) (\<lambda>downloaded.
       if \<not> downloaded then
         io_then (logging ERROR ''Failed to download Edge driver using InetRead method.'')
           (io_return None)
       else
         io_then (logging INFO ''Extracting Edge driver using Shell.Application.'')
        (io_bind (extract_zip_with_shell E zip_path base_path) (\<lambda>extracted.
           if \<not> extracted then
             io_then (logging ERROR ''Failed to extract Edge driver using Shell.Application.'')
               (io_return None)
           else
             io_then (try_except (os_remove E zip_path) (\<lambda>e. io_return ()))
               (reconcile E base_path driver_path))))))"

text \<open>Lines 387 to 392: the \<open>finally\<close> clause.\<close>

definition cleanup :: "env \<Rightarrow> path \<Rightarrow> unit io" where
  "cleanup E temp_dir = try_except (shutil_rmtree E temp_dir) (\<lambda>e. io_return ())"

text \<open>Lines 343 to 392: the inner \<open>try\<close> with its \<open>except\<close> and \<open>finally\<close>.\<close>

definition in_workspace :: "env \<Rightarrow> path \<Rightarrow> path \<Rightarrow> json \<Rightarrow> path \<Rightarrow> path option io" where
  "in_workspace E base_path driver_path edge_version temp_dir =
     try_finally
       (try_except (acquire E base_path driver_path edge_version temp_dir)
          (\<lambda>e. io_then (logging ERROR (''Error downloading or extracting Edge driver: ''
                                        @ error_str e))
                 (io_return None)))
       (cleanup E temp_dir)"

text \<open>Lines 314 to 392: the body of the outer \<open>try\<close>.\<close>

definition resolve_body :: "env \<Rightarrow> path option io" where
  "resolve_body E =
     io_bind (io_return (script_dir E)) (\<lambda>base_path.
     io_bind (io_return (join base_path driver_name)) (\<lambda>driver_path.
     io_bind (cache_check (possible_driver_locations E)) (\<lambda>hit.
       case hit of
         Some p \<Rightarrow> io_return (Some p)
       | None \<Rightarrow>
           io_then (logging INFO ''Edge driver not found in expected locations.'')
          (io_bind (get_edge_version E) (\<lambda>edge_version.
             if \<not> truthy edge_version then
               io_then (logging ERROR ''Could not determine Edge version.'') (io_return None)
             else
               io_bind (tempfile_mkdtemp E) (\<lambda>temp_dir.
                 in_workspace E base_path driver_path edge_version temp_dir))))))"

definition get_edge_driver_path :: "env \<Rightarrow> path option io" where
  "get_edge_driver_path E =
     try_except (resolve_body E)
       (\<lambda>e. io_then (logging ERROR (''Error setting up Edge driver: '' @ error_str e))
              (io_return None))"

subsection \<open>The program\<close>

definition LOG_FILE_NAME :: string where
  "LOG_FILE_NAME = ''inet_read.log''"

definition initialize_logging :: "env \<Rightarrow> path \<Rightarrow> unit io" where
  "initialize_logging E folder_path =
     io_bind (io_return (join folder_path LOG_FILE_NAME)) (\<lambda>log_file.
     io_then (open_append E log_file)
       (logging INFO (''Logging initialized. Log file: '' @ path_str log_file)))"

text \<open>
  Lines 418 to 422. \<open>if driver_path:\<close> holds for a path that is not the empty string.
\<close>

definition report :: "env \<Rightarrow> unit io" where
  "report E =
     io_bind (get_edge_driver_path E) (\<lambda>driver_path.
       case driver_path of
         None \<Rightarrow> print ''Failed to set up Edge driver.''
       | Some p \<Rightarrow>
           if path_str p \<noteq> [] then print (''Edge driver is ready at: '' @ path_str p)
           else print ''Failed to set up Edge driver.'')"

text \<open>Lines 414 to 422.\<close>

definition main :: "env \<Rightarrow> unit io" where
  "main E = io_then (initialize_logging E (module_dir E)) (report E)"

section \<open>Properties of actions, and scenarios\<close>

text \<open>An action that never ends with an exception.\<close>

definition returns :: "'a io \<Rightarrow> bool" where
  "returns m = (\<forall>w. \<exists>x w'. m w = (Inr x, w'))"

text \<open>
  \<open>emits P m\<close>: whatever the state, the external calls \<open>m\<close> makes are appended to the trace
  and each of them satisfies \<open>P\<close>.
\<close>

definition emits :: "(event \<Rightarrow> bool) \<Rightarrow> 'a io \<Rightarrow> bool" where
  "emits P m = (\<forall>w. \<exists>es. calls (snd (m w)) = calls w @ es \<and> list_all P es)"

text \<open>An action that writes nothing to the console.\<close>

definition prints_nothing :: "'a io \<Rightarrow> bool" where
  "prints_nothing m = (\<forall>w. printed (snd (m w)) = printed w)"

text \<open>The calls of the version probe, and the calls made while the workspace exists.\<close>

definition probe_call :: "event \<Rightarrow> bool" where
  "probe_call ev =
     (case ev of
        Subprocess argv t \<Rightarrow> t = None
      | URLDownloadToFileW u p \<Rightarrow> u = latest_stable_url
      | Urlopen u t \<Rightarrow> u = latest_stable_url \<and> t = 30
      | _ \<Rightarrow> False)"


subsection \<open>Scenarios\<close>

text \<open>
  A machine without Edge under \<open>C:\<close>: the script lives in \<open>D:\app\<close>, the temporary
  directory is \<open>D:\tmp\<close>, the registry reports version 136.0.3240.64, the network answers,
  and the archive holds the driver at its root.
\<close>

definition disk_fresh :: node where
  "disk_fresh = Dir [(''D:'', Dir [(''app'', Dir []), (''tmp'', Dir [])])]"

definition world_fresh :: world where
  "world_fresh = \<lparr>disk = disk_fresh, logged = [], calls = [], printed = []\<rparr>"

definition world_cached :: world where
  "world_cached =
     \<lparr>disk = Dir [(''D:'', Dir [(''app'', Dir [(''msedgedriver.exe'', File ''MZ'')]),
                              (''tmp'', Dir [])])],
      logged = [], calls = [], printed = []\<rparr>"

definition env_plain :: env where
  "env_plain =
     \<lparr>script_dir = [''D:'', ''app''], executable_dir = [''D:'', ''py''],
      module_dir = [''D:'', ''app''], tempdir = [''D:'', ''tmp''],
      mkdtemp_name = Inr ''ws'',
      deny = (\<lambda>op p. None),
      subprocess_run = (\<lambda>argv. Inr (''    version    REG_SZ    136.0.3240.64'' @ [newline])),
      internet_open = 1,
      internet_open_url = (\<lambda>url. 2),
      internet_read_file = (\<lambda>url. [ReadOk ''PK'', ReadOk []]),
      url_download_to_file = (\<lambda>url. Inr (0, Some ''137.0.0.1'')),
      urlopen = (\<lambda>url. Inr (''137.0.0.1'', None)),
      decode = (\<lambda>bytes. Inr bytes),
      json_load = (\<lambda>text. Inr (JObject [] ''{}'')),
      create_object = None,
      zip_items = (\<lambda>bytes. Some [(''msedgedriver.exe'', File ''MZ'')]),
      copy_here = None\<rparr>"

text \<open>The same machine when no temporary directory can be created.\<close>

definition env_no_temp :: env where
  "env_no_temp = env_plain\<lparr>mkdtemp_name := Inl (OSError ''No usable temporary directory found'')\<rparr>"

text \<open>The same machine when the connection breaks after the first two bytes of the archive.\<close>

definition env_broken_read :: env where
  "env_broken_read = env_plain\<lparr>internet_read_file := (\<lambda>url. [ReadOk ''PK'', ReadFailed])\<rparr>"

text \<open>
  The same machine when the archive holds the driver in a folder \<open>edgedriver_win64\<close>, and
  the disk once the archive has been downloaded into the workspace.
\<close>

definition env_nested :: env where
  "env_nested =
     env_plain\<lparr>zip_items :=
       (\<lambda>bytes. Some [(''edgedriver_win64'', Dir [(''msedgedriver.exe'', File ''MZ'')])])\<rparr>"

definition world_downloaded :: world where
  "world_downloaded =
     \<lparr>disk = Dir [(''D:'', Dir [(''app'', Dir []),
                              (''tmp'', Dir [(''ws'', Dir [(''edgedriver.zip'', File ''PK'')])])])],
      logged = [], calls = [], printed = []\<rparr>"

text \<open>
  The same machine when neither utility can be started and the connection of urllib breaks
  after five bytes of the version marker.
\<close>

definition env_cut :: env where
  "env_cut =
     env_plain\<lparr>subprocess_run := (\<lambda>argv. Inl (FileNotFoundError ''The system cannot find the file specified'')),
                urlopen := (\<lambda>url. Inr (''137.0'', Some (OSError ''timed out'')))\<rparr>"


text \<open>
  The same machine when the URL of the archive cannot be opened, and the state in which the
  version probe leaves it.
\<close>

definition env_no_url :: env where
  "env_no_url = env_plain\<lparr>internet_open_url := (\<lambda>url. 0)\<rparr>"

definition world_probed :: world where
  "world_probed =
     \<lparr>disk = disk_fresh,
      logged = [(INFO, ''Edge driver not found in expected locations.''),
                (INFO, ''Detecting Edge browser version...''),
                (INFO, ''Edge version detected (registry): 136.0.3240.64'')],
      calls = [Subprocess reg_argv None],
      printed = []\<rparr>"

text \<open>
  The same machine when nothing can be deleted: another process holds the files of the
  workspace open.
\<close>

definition env_busy :: env where
  "env_busy =
     env_plain\<lparr>deny := (\<lambda>op p. if op = OpRmtree \<or> op = OpRemove
                                 then Some (OSError ''The process cannot access the file because it is being used by another process'')
                                 else None)\<rparr>"

definition env_busy_no_url :: env where
  "env_busy_no_url = env_busy\<lparr>internet_open_url := (\<lambda>url. 0)\<rparr>"



text \<open>A machine with Edge installed under \<open>C:\Program Files (x86)\<close>.\<close>

definition world_edge :: world where
  "world_edge =
     \<lparr>disk = Dir [(''C:'', Dir [(''Program Files (x86)'',
                      Dir [(''Microsoft'', Dir [(''Edge'', Dir [(''Application'',
                        Dir [(''msedge.exe'', File [])])])])])]),
                  (''D:'', Dir [(''app'', Dir []), (''tmp'', Dir [])])],
      logged = [], calls = [], printed = []\<rparr>"


text \<open>The fresh machine once \<open>initialize_logging\<close> has opened the log file beside the module.\<close>

definition world_started :: world where
  "world_started =
     \<lparr>disk = Dir [(''D:'', Dir [(''app'', Dir [(''inet_read.log'', File [])]), (''tmp'', Dir [])])],
      logged = [(INFO, ''Logging initialized. Log file: D:'' @ [backslash] @ ''app'' @ [backslash]
                         @ ''inet_read.log'')],
      calls = [], printed = []\<rparr>"




section \<open>Lemmas\<close>

subsection \<open>Evaluation of the character classes\<close>

lemma lower_char_bits:
  "lower_char (Char b0 b1 b2 b3 b4 b5 b6 b7) =
     (if b6 \<and> \<not> b5 \<and>
         (if b7 then \<not> (b4 \<and> b2 \<and> b1 \<and> b0)
          else (b0 \<or> b1 \<or> b2 \<or> b3 \<or> b4) \<and> \<not> (b4 \<and> b3 \<and> (b2 \<or> b1 \<and> b0)))
      then Char b0 b1 b2 b3 b4 True b6 b7
      else Char b0 b1 b2 b3 b4 b5 b6 b7)"
  by (cases b0; cases b1; cases b2; cases b3; cases b4; cases b5; cases b6; cases b7;
      simp add: lower_char_def char_of_def bit_Suc_0_iff)

lemma is_space_bits:
  "is_space (Char b0 b1 b2 b3 b4 b5 b6 b7) =
     (if b7 then \<not> b6 \<and> \<not> b4 \<and> \<not> b3 \<and> \<not> b1 \<and> (b5 \<and> \<not> b2 \<and> \<not> b0 \<or> \<not> b5 \<and> b2 \<and> b0)
      else \<not> b6 \<and> (if b5 then \<not> b4 \<and> \<not> b3 \<and> \<not> b2 \<and> \<not> b1 \<and> \<not> b0
                   else if b4 then b3 \<and> b2
                   else b3 \<and> (b0 \<or> b1 \<or> b2) \<and> \<not> (b2 \<and> b1)))"
  by (cases b0; cases b1; cases b2; cases b3; cases b4; cases b5; cases b6; cases b7;
      simp add: is_space_def)

subsection \<open>The file system\<close>

lemma find_put_child:
  "find (\<lambda>c. same_name (fst c) x) (put_child x new cs) = Some (x, new)"
  by (induction cs) (auto simp: put_child_def same_name_def)

lemma find_del_child:
  "find (\<lambda>c. same_name (fst c) x) (del_child x cs) = None"
  by (induction cs) (auto simp: del_child_def)

lemma find_in_child:
  "find (\<lambda>c. same_name (fst c) x) (in_child x g cs) =
     map_option (\<lambda>c. (fst c, g (snd c))) (find (\<lambda>c. same_name (fst c) x) cs)"
  by (induction cs) (auto simp: in_child_def)

lemma lookup_fs_del: "p \<noteq> [] \<Longrightarrow> fs_lookup (fs_del p fs) p = None"
proof (induction p fs rule: fs_del.induct)
  case (4 x y p cs)
  then show ?case
    by (cases "find (\<lambda>c. same_name (fst c) x) cs") (simp_all add: find_in_child)
qed (simp_all add: find_del_child)

lemma lookup_fs_put:
  "p \<noteq> [] \<Longrightarrow> fs_lookup fs (dirname p) = Some (Dir ds) \<Longrightarrow> fs_lookup (fs_put p new fs) p = Some new"
proof (induction p new fs arbitrary: ds rule: fs_put.induct)
  case (4 x y p new cs)
  then show ?case
    by (cases "find (\<lambda>c. same_name (fst c) x) cs") (auto simp: find_in_child dirname_def)
qed (auto simp: find_put_child dirname_def split: if_splits)

subsection \<open>Actions\<close>

lemma returnsD: "returns m \<Longrightarrow> \<exists>x w'. m w = (Inr x, w')"
  by (simp add: returns_def)

lemma returns_return: "returns (io_return x)"
  by (simp add: returns_def io_return_def)

lemma returns_logging: "returns (logging lv s)"
  by (simp add: returns_def logging_def)

lemma returns_bind: "returns m \<Longrightarrow> (\<And>x. returns (f x)) \<Longrightarrow> returns (io_bind m f)"
  unfolding returns_def io_bind_def
  by (metis (mono_tags, lifting) old.prod.case old.sum.simps(6))

lemma returns_then: "returns m \<Longrightarrow> returns n \<Longrightarrow> returns (io_then m n)"
  by (simp add: io_then_def returns_bind)

lemma returns_try_except: "(\<And>e. returns (h e)) \<Longrightarrow> returns (try_except m h)"
  unfolding returns_def try_except_def
  by (auto split: prod.splits sum.splits)

lemma returns_try_finally: "returns m \<Longrightarrow> returns c \<Longrightarrow> returns (try_finally m c)"
  unfolding returns_def try_finally_def
  by (metis (mono_tags, lifting) old.prod.case old.sum.simps(6))

lemma emitsD: "emits P m \<Longrightarrow> m w = (r, w') \<Longrightarrow> \<exists>es. calls w' = calls w @ es \<and> list_all P es"
  unfolding emits_def by (metis snd_conv)

lemma emits_silent: "(\<And>w. calls (snd (m w)) = calls w) \<Longrightarrow> emits P m"
  by (simp add: emits_def)


lemma emits_return: "emits P (io_return x)"
  by (simp add: emits_def io_return_def)

lemma emits_raise: "emits P (io_raise e)"
  by (simp add: emits_def io_raise_def)

lemma emits_logging: "emits P (logging lv s)"
  by (simp add: emits_def logging_def)

lemma emits_print: "emits P (print s)"
  by (simp add: emits_def print_def)

lemma emits_call: "P ev \<Longrightarrow> emits P (call ev)"
  by (simp add: emits_def call_def)

lemma emits_bind:
  assumes "emits P m" and "\<And>x. emits P (f x)"
  shows "emits P (io_bind m f)"
  unfolding emits_def
proof
  fix w
  obtain r w1 where m: "m w = (r, w1)" by (cases "m w")
  from emitsD[OF assms(1) m] obtain es1 where 1: "calls w1 = calls w @ es1" "list_all P es1"
    by blast
  show "\<exists>es. calls (snd (io_bind m f w)) = calls w @ es \<and> list_all P es"
  proof (cases r)
    case (Inl e)
    with m 1 show ?thesis by (auto simp: io_bind_def)
  next
    case (Inr x)
    obtain r2 w2 where f: "f x w1 = (r2, w2)" by (cases "f x w1")
    from emitsD[OF assms(2) f] obtain es2 where 2: "calls w2 = calls w1 @ es2" "list_all P es2"
      by blast
    with m 1 Inr f show ?thesis by (auto simp: io_bind_def)
  qed
qed

lemma emits_then: "emits P m \<Longrightarrow> emits P n \<Longrightarrow> emits P (io_then m n)"
  by (simp add: io_then_def emits_bind)

lemma emits_try_except:
  assumes "emits P m" and "\<And>e. emits P (h e)"
  shows "emits P (try_except m h)"
  unfolding emits_def
proof
  fix w
  obtain r w1 where m: "m w = (r, w1)" by (cases "m w")
  from emitsD[OF assms(1) m] obtain es1 where 1: "calls w1 = calls w @ es1" "list_all P es1"
    by blast
  show "\<exists>es. calls (snd (try_except m h w)) = calls w @ es \<and> list_all P es"
  proof (cases r)
    case (Inr x)
    with m 1 show ?thesis by (auto simp: try_except_def)
  next
    case (Inl e)
    obtain r2 w2 where h: "h e w1 = (r2, w2)" by (cases "h e w1")
    from emitsD[OF assms(2) h] obtain es2 where 2: "calls w2 = calls w1 @ es2" "list_all P es2"
      by blast
    with m 1 Inl h show ?thesis by (auto simp: try_except_def)
  qed
qed

lemma emits_try_finally:
  assumes "emits P m" and "emits P c"
  shows "emits P (try_finally m c)"
  unfolding emits_def
proof
  fix w
  obtain r w1 where m: "m w = (r, w1)" by (cases "m w")
  from emitsD[OF assms(1) m] obtain es1 where 1: "calls w1 = calls w @ es1" "list_all P es1"
    by blast
  obtain r2 w2 where c: "c w1 = (r2, w2)" by (cases "c w1")
  from emitsD[OF assms(2) c] obtain es2 where 2: "calls w2 = calls w1 @ es2" "list_all P es2"
    by blast
  from m c 1 2 show "\<exists>es. calls (snd (try_finally m c w)) = calls w @ es \<and> list_all P es"
    by (cases r2) (auto simp: try_finally_def)
qed

lemma emits_if: "emits P a \<Longrightarrow> emits P b \<Longrightarrow> emits P (if c then a else b)"
  by simp

lemma emits_case_option:
  "emits P a \<Longrightarrow> (\<And>x. emits P (f x)) \<Longrightarrow> emits P (case opt of None \<Rightarrow> a | Some x \<Rightarrow> f x)"
  by (cases opt) simp_all

lemma emits_case_sum:
  "(\<And>e. emits P (f e)) \<Longrightarrow> (\<And>x. emits P (g x)) \<Longrightarrow> emits P (case s of Inl e \<Rightarrow> f e | Inr x \<Rightarrow> g x)"
  by (cases s) simp_all

lemma emits_case_prod:
  "(\<And>a b. emits P (f a b)) \<Longrightarrow> emits P (case p of (a, b) \<Rightarrow> f a b)"
  by (cases p) simp

lemmas emits_intros =
  emits_return emits_raise emits_logging emits_print emits_bind emits_then emits_try_except
  emits_try_finally emits_if emits_case_option emits_case_sum emits_case_prod

lemma emits_os_path_exists: "emits P (os_path_exists p)"
  by (rule emits_silent) (simp add: os_path_exists_def)

lemma emits_os_remove: "emits P (os_remove E p)"
  by (rule emits_silent) (simp add: os_remove_def split: option.splits node.splits)

lemma emits_write_file: "emits P (write_file E p d)"
  by (rule emits_silent) (simp add: write_file_def split: option.splits node.splits)

lemma emits_read_file: "emits P (read_file E p)"
  by (rule emits_silent) (simp add: read_file_def split: option.splits node.splits sum.splits)




subsection \<open>No function of the module lets an exception out\<close>

lemma returns_inet_read: "returns (inet_read E url)"
  unfolding inet_read_def
  by (intro returns_try_except returns_then returns_logging returns_return)

lemma returns_download_file_inet_read: "returns (download_file_inet_read E url p)"
  unfolding download_file_inet_read_def
  by (intro returns_try_except returns_then returns_logging returns_return)

lemma returns_extract_zip_with_shell: "returns (extract_zip_with_shell E z d)"
  unfolding extract_zip_with_shell_def
  by (intro returns_try_except returns_then returns_logging returns_return)

lemma returns_url_download: "returns (url_download E url p)"
  unfolding url_download_def
  by (intro returns_try_except returns_then returns_logging returns_return)




lemma returns_version_from_file: "returns (version_from_file E)"
  unfolding version_from_file_def
  by (intro returns_try_except returns_then returns_logging returns_return)

lemma returns_version_from_remote: "returns (version_from_remote E)"
  unfolding version_from_remote_def
  by (intro returns_try_except returns_then returns_logging returns_return)

lemma returns_get_edge_version: "returns (get_edge_version E)"
  unfolding get_edge_version_def
  by (intro returns_try_except returns_then returns_logging returns_return)

lemma returns_cleanup: "returns (cleanup E d)"
  unfolding cleanup_def
  by (intro returns_try_except returns_return)

lemma returns_in_workspace: "returns (in_workspace E b d v t)"
  unfolding in_workspace_def
  by (intro returns_try_finally returns_try_except returns_then returns_logging returns_return
        returns_cleanup)

lemma returns_get_edge_driver_path: "returns (get_edge_driver_path E)"
  unfolding get_edge_driver_path_def
  by (intro returns_try_except returns_then returns_logging returns_return)

subsection \<open>The external calls of each function\<close>






lemma emits_wintypes_attr: "emits P (wintypes_attr name)"
  unfolding wintypes_attr_def by (intro emits_intros)

lemma emits_url_download:
  assumes "P (URLDownloadToFileW url p)"
  shows "emits P (url_download E url p)"
  unfolding url_download_def
  by (intro emits_intros emits_wintypes_attr emits_call assms emits_silent)
     (simp split: option.splits)

text \<open>
  Whatever the URL, the attempt with \<open>URLDownloadToFileW\<close> ends at line 181, before the call:
  a warning is logged and the download is left to urllib.
\<close>

lemma url_download_raises:
  "url_download E url p w =
     (Inr False,
      w\<lparr>logged := logged w
             @ [(WARNING, ''WinINet API error: module '' @ [squote] @ ''ctypes.wintypes'' @ [squote]
                           @ '' has no attribute '' @ [squote] @ ''HRESULT'' @ [squote]
                           @ '', trying alternative'')]\<rparr>)"
  by (simp add: url_download_def wintypes_attr_def wintypes_names_def try_except_def io_then_def
        io_bind_def io_return_def io_raise_def logging_def)

lemma emits_urllib_download:
  assumes "P (Urlopen url 30)"
  shows "emits P (urllib_download E url p)"
  unfolding urllib_download_def
  by (intro emits_intros emits_call assms emits_write_file)

lemma emits_download_file_with_wininet:
  assumes "P (URLDownloadToFileW url p)" "P (Urlopen url 30)"
  shows "emits P (download_file_with_wininet E url p)"
  unfolding download_file_with_wininet_def
  by (intro emits_intros emits_url_download emits_urllib_download assms)

lemma emits_subprocess: "P (Subprocess argv t) \<Longrightarrow> emits P (subprocess E argv t)"
  unfolding subprocess_def
  by (intro emits_intros emits_call)

lemma emits_wmic_loop: "emits probe_call (wmic_loop E ps)"
  by (induction ps)
     (auto intro!: emits_intros emits_os_path_exists emits_subprocess simp: probe_call_def)

lemma emits_py_get: "emits P (py_get v k dflt)"
  by (cases v) (simp_all add: py_get_def emits_return emits_raise)

lemma emits_get_edge_version: "emits probe_call (get_edge_version E)"
  unfolding get_edge_version_def version_from_wmic_def version_from_registry_def
    version_from_file_def version_default_def version_from_remote_def
  by (intro emits_intros emits_wmic_loop emits_subprocess emits_os_path_exists emits_read_file
        emits_py_get emits_os_remove emits_download_file_with_wininet)
     (simp_all add: probe_call_def)






subsection \<open>Evaluation\<close>

lemmas text_defs =
  newline_def backslash_def dquote_def squote_def carriage_return_def strip_def lower_def replace_char_def digit_char_def
  show_int_def dot_plus_def match_reg_here_def same_name_def path_str_def join_def dirname_def
  lower_char_bits is_space_bits

lemmas fs_defs =
  path_exists_def path_isdir_def put_child_def del_child_def in_child_def is_dir_def os_walk_def
  walk_tuples_def

lemmas io_defs =
  io_return_def io_raise_def io_bind_def io_then_def try_except_def try_finally_def logging_def
  call_def print_def os_path_exists_def os_remove_def shutil_rmtree_def write_file_def
  open_append_def read_file_def os_makedirs_def tempfile_mkdtemp_def shutil_move_def

lemmas module_defs =
  inet_read_def download_file_inet_read_def driver_name_def shell_namespace_items_def
  shell_copy_here_def extract_zip_with_shell_def wintypes_names_def wintypes_attr_def
  url_download_def urllib_download_def
  download_file_with_wininet_def edge_dir_x86_def edge_dir_x64_def edge_paths_def
  fallback_version_def latest_stable_url_def subprocess_def wmic_query_def wmic_argv_def
  reg_argv_def version_from_wmic_def version_from_registry_def dict_get_def py_get_def
  version_from_file_def version_from_remote_def version_default_def get_edge_version_def
  possible_driver_locations_def reconcile_def download_url_def acquire_def cleanup_def
  in_workspace_def resolve_body_def get_edge_driver_path_def LOG_FILE_NAME_def
  initialize_logging_def report_def main_def

lemmas scenario_defs = disk_fresh_def world_fresh_def world_cached_def env_plain_def

subsection \<open>The program\<close>

lemma returns_report: "returns (report E)"
  unfolding report_def
  by (rule returns_bind[OF returns_get_edge_driver_path])
     (simp add: returns_def print_def split: option.splits)

subsection \<open>Reading and saving\<close>

lemma read_loop_chunks:
  "[] \<notin> set chunks \<Longrightarrow> read_loop (map ReadOk chunks @ rs) data = read_loop rs (data @ concat chunks)"
  by (induction chunks arbitrary: data) auto

lemma inet_read_reads:
  assumes "internet_open E \<noteq> 0" "internet_open_url E url \<noteq> 0"
    and "read_loop (internet_read_file E url) [] = Inr data"
  shows "inet_read E url w =
           (Inr (Some data),
            w\<lparr>logged := logged w
                   @ [(INFO, ''Using InetRead equivalent to download: '' @ url),
                      (INFO, ''Successfully downloaded '' @ show_nat (length data)
                               @ '' bytes using InetRead equivalent'')],
              calls := calls w
                   @ [InternetOpenW, InternetOpenUrlW url,
                      InternetCloseHandle (internet_open_url E url),
                      InternetCloseHandle (internet_open E)]\<rparr>)"
  using assms
  by (simp add: inet_read_def try_except_def try_finally_def io_then_def io_bind_def
        io_return_def logging_def call_def)

lemma write_file_ok:
  assumes "deny E OpWrite p = None" and "p \<noteq> []"
    and "fs_lookup (disk w) (dirname p) = Some (Dir ds)"
    and "\<not> path_isdir (disk w) p"
  shows "write_file E p d w = (Inr (), w\<lparr>disk := fs_put p (File d) (disk w)\<rparr>)"
proof (cases "fs_lookup (disk w) p")
  case None
  with assms show ?thesis by (simp add: write_file_def)
next
  case (Some n)
  with assms show ?thesis by (cases n) (simp_all add: write_file_def path_isdir_def)
qed

subsection \<open>The walks\<close>

text \<open>
  Both walks of the module unpack the triples of \<open>os.walk\<close> into two names: whatever the
  directory holds, the search raises at its first item.
\<close>

lemma walk_tuples_dir:
  "fs_lookup fs d = Some (Dir cs) \<Longrightarrow>
   \<exists>root dirs files ts. walk_tuples fs d = [root, dirs, files] # ts"
  by (simp add: walk_tuples_def os_walk_def)

lemma find_in_walk_raises:
  assumes "path_isdir fs d"
  shows "find_in_walk (walk_tuples fs d) = Inl (ValueError ''too many values to unpack (expected 2)'')"
proof -
  from assms obtain cs where "fs_lookup fs d = Some (Dir cs)"
    by (auto simp: path_isdir_def split: option.splits node.splits)
  from walk_tuples_dir[OF this] obtain root dirs files ts
    where "walk_tuples fs d = [root, dirs, files] # ts" by blast
  then show ?thesis by simp
qed

lemma find_and_move_raises:
  assumes "path_isdir fs d"
  shows "find_and_move E b p (walk_tuples fs d) w
           = (Inl (ValueError ''too many values to unpack (expected 2)''), w)"
proof -
  from assms obtain cs where "fs_lookup fs d = Some (Dir cs)"
    by (auto simp: path_isdir_def split: option.splits node.splits)
  from walk_tuples_dir[OF this] obtain root dirs files ts
    where "walk_tuples fs d = [root, dirs, files] # ts" by blast
  then show ?thesis by (simp add: io_raise_def)
qed

subsection \<open>The cache check\<close>

lemma cache_check_find:
  "cache_check ps w =
     (case find (path_exists (disk w)) ps of
        Some p \<Rightarrow> (Inr (Some p), w\<lparr>logged := logged w @ [(INFO, ''Edge driver found at: '' @ path_str p)]\<rparr>)
      | None \<Rightarrow> (Inr None, w))"
  by (induction ps) (simp_all add: io_return_def io_bind_def io_then_def os_path_exists_def logging_def)

lemma list_ex_find: "list_ex P xs \<Longrightarrow> \<exists>x. find P xs = Some x"
  by (induction xs) auto

lemma list_ex_find_None: "\<not> list_ex P xs \<Longrightarrow> find P xs = None"
  by (induction xs) auto

subsection \<open>Steps of \<open>get_edge_driver_path\<close>\<close>

lemma cleanup_effect:
  "\<exists>w'. cleanup E t w = (Inr (), w') \<and> logged w' = logged w \<and> printed w' = printed w
        \<and> calls w' = calls w @ [Rmtree t]
        \<and> (t \<noteq> [] \<longrightarrow> deny E OpRmtree t = None \<longrightarrow> \<not> path_isdir (disk w') t)"
proof (cases "deny E OpRmtree t")
  case (Some e)
  then show ?thesis
    by (simp add: cleanup_def shutil_rmtree_def try_except_def io_then_def io_bind_def
          io_return_def call_def)
next
  case None
  show ?thesis
  proof (cases "fs_lookup (disk w) t")
    case none: None
    with None show ?thesis
      by (simp add: cleanup_def shutil_rmtree_def try_except_def io_then_def io_bind_def
            io_return_def call_def path_isdir_def)
  next
    case (Some n)
    with None show ?thesis
      by (cases n)
         (simp_all add: cleanup_def shutil_rmtree_def try_except_def io_then_def io_bind_def
            io_return_def call_def path_isdir_def lookup_fs_del)
  qed
qed

lemma try_finally_cleanup:
  assumes "m w = (r, w1)"
  shows "\<exists>w'. try_finally m (cleanup E t) w = (r, w') \<and> logged w' = logged w1
           \<and> printed w' = printed w1 \<and> calls w' = calls w1 @ [Rmtree t]
           \<and> (t \<noteq> [] \<longrightarrow> deny E OpRmtree t = None \<longrightarrow> \<not> path_isdir (disk w') t)"
proof -
  from cleanup_effect[of E t w1] obtain w' where
    c: "cleanup E t w1 = (Inr (), w') \<and> logged w' = logged w1 \<and> printed w' = printed w1
        \<and> calls w' = calls w1 @ [Rmtree t]
        \<and> (t \<noteq> [] \<longrightarrow> deny E OpRmtree t = None \<longrightarrow> \<not> path_isdir (disk w') t)" ..
  then have "try_finally m (cleanup E t) w = (r, w')"
    by (simp add: try_finally_def assms)
  with c show ?thesis by (intro exI[of _ w']) simp
qed





lemma in_workspace_removes:
  "\<exists>r w'. in_workspace E b d v t w = (Inr r, w') \<and> last (calls w') = Rmtree t
        \<and> (t \<noteq> [] \<longrightarrow> deny E OpRmtree t = None \<longrightarrow> \<not> path_isdir (disk w') t)"
proof -
  let ?m = "try_except (acquire E b d v t)
          (\<lambda>e. io_then (logging ERROR (''Error downloading or extracting Edge driver: ''
                                        @ error_str e))
                 (io_return None))"
  have "returns ?m"
    by (intro returns_try_except returns_then returns_logging returns_return)
  from returnsD[OF this] obtain r1 w1 where a: "?m w = (Inr r1, w1)" by blast
  from try_finally_cleanup[where m = ?m and E = E and t = t, OF a] obtain w' where
    c: "try_finally ?m (cleanup E t) w = (Inr r1, w') \<and> logged w' = logged w1
           \<and> printed w' = printed w1 \<and> calls w' = calls w1 @ [Rmtree t]
           \<and> (t \<noteq> [] \<longrightarrow> deny E OpRmtree t = None \<longrightarrow> \<not> path_isdir (disk w') t)" ..
  then show ?thesis
    unfolding in_workspace_def by (intro exI[of _ r1] exI[of _ w']) simp
qed

lemma resolve_miss:
  assumes "\<not> list_ex (path_exists (disk w)) (possible_driver_locations E)"
    and "get_edge_version E
           (w\<lparr>logged := logged w @ [(INFO, ''Edge driver not found in expected locations.'')]\<rparr>)
         = (Inr v, w1)"
    and "truthy v"
    and "mkdtemp_name E = Inr name"
  shows "get_edge_driver_path E w =
           in_workspace E (script_dir E) (join (script_dir E) driver_name) v
             (join (tempdir E) name)
             (w1\<lparr>disk := fs_put (join (tempdir E) name) (Dir []) (disk w1),
                  calls := calls w1 @ [Mkdtemp (join (tempdir E) name)]\<rparr>)"
proof -
  let ?w2 = "w1\<lparr>disk := fs_put (join (tempdir E) name) (Dir []) (disk w1),
                  calls := calls w1 @ [Mkdtemp (join (tempdir E) name)]\<rparr>"
  have body: "resolve_body E w =
      in_workspace E (script_dir E) (join (script_dir E) driver_name) v (join (tempdir E) name) ?w2"
    using assms(2,3,4) list_ex_find_None[OF assms(1)]
    by (simp add: resolve_body_def io_bind_def io_return_def io_then_def logging_def
          cache_check_find tempfile_mkdtemp_def)
  from returnsD[OF returns_in_workspace] obtain r w' where
    "in_workspace E (script_dir E) (join (script_dir E) driver_name) v (join (tempdir E) name) ?w2
       = (Inr r, w')" by blast
  with body show ?thesis
    by (simp add: get_edge_driver_path_def try_except_def)
qed







subsection \<open>What \<open>get_edge_version\<close> returns\<close>











subsection \<open>Failing utilities\<close>

lemma version_from_wmic_raises:
  assumes "path_exists (disk w) (join edge_dir_x86 ''msedge.exe'')"
    and "subprocess_run E (wmic_argv (join edge_dir_x86 ''msedge.exe'')) = Inl e"
  shows "version_from_wmic E w =
           (Inr None,
            w\<lparr>logged := logged w
                   @ [(WARNING, ''Could not get Edge version using wmic: '' @ error_str e)],
              calls := calls w @ [Subprocess (wmic_argv (join edge_dir_x86 ''msedge.exe'')) None]\<rparr>)"
  using assms
  by (simp add: version_from_wmic_def edge_paths_def try_except_def io_bind_def io_then_def
        os_path_exists_def subprocess_def call_def io_raise_def logging_def io_return_def)

lemma version_from_registry_raises:
  assumes "subprocess_run E reg_argv = Inl e"
  shows "version_from_registry E w =
           (Inr None,
            w\<lparr>logged := logged w
                   @ [(WARNING, ''Could not get Edge version using registry: '' @ error_str e)],
              calls := calls w @ [Subprocess reg_argv None]\<rparr>)"
  using assms
  by (simp add: version_from_registry_def try_except_def io_bind_def io_then_def
        subprocess_def call_def io_raise_def logging_def io_return_def)

lemma returns_version_default: "returns (version_default E ev)"
  unfolding version_default_def
  by (auto intro!: returns_then returns_logging returns_bind returns_version_from_remote
        returns_return split: option.splits)

lemma emits_version_default: "emits probe_call (version_default E ev)"
  unfolding version_default_def version_from_remote_def
  by (intro emits_intros emits_read_file emits_os_remove emits_download_file_with_wininet)
     (simp_all add: probe_call_def)

lemma emits_version_from_file: "emits P (version_from_file E)"
  unfolding version_from_file_def
  by (intro emits_intros emits_os_path_exists emits_read_file emits_py_get)

lemma get_edge_version_after_two_failures:
  assumes "path_exists (disk w) (join edge_dir_x86 ''msedge.exe'')"
    and "subprocess_run E (wmic_argv (join edge_dir_x86 ''msedge.exe'')) = Inl e1"
    and "subprocess_run E reg_argv = Inl e2"
  shows "\<exists>v w' es. get_edge_version E w = (Inr v, w')
           \<and> calls w' = calls w @ [Subprocess (wmic_argv (join edge_dir_x86 ''msedge.exe'')) None,
                                   Subprocess reg_argv None] @ es"
proof -
  define w0 where "w0 = w\<lparr>logged := logged w @ [(INFO, ''Detecting Edge browser version...'')]\<rparr>"
  define w1 where "w1 = w0\<lparr>logged := logged w0
                   @ [(WARNING, ''Could not get Edge version using wmic: '' @ error_str e1)],
              calls := calls w0 @ [Subprocess (wmic_argv (join edge_dir_x86 ''msedge.exe'')) None]\<rparr>"
  define w2 where "w2 = w1\<lparr>logged := logged w1
                   @ [(WARNING, ''Could not get Edge version using registry: '' @ error_str e2)],
              calls := calls w1 @ [Subprocess reg_argv None]\<rparr>"
  have there: "path_exists (disk w0) (join edge_dir_x86 ''msedge.exe'')"
    using assms(1) by (simp add: w0_def)
  have s1: "version_from_wmic E w0 = (Inr None, w1)"
    unfolding w1_def by (rule version_from_wmic_raises[OF there assms(2)])
  have s2: "version_from_registry E w1 = (Inr None, w2)"
    unfolding w2_def by (rule version_from_registry_raises[OF assms(3)])
  have c2: "calls w2 = calls w @ [Subprocess (wmic_argv (join edge_dir_x86 ''msedge.exe'')) None,
                                   Subprocess reg_argv None]"
    by (simp add: w2_def w1_def w0_def)
  define rest where "rest = io_bind (version_from_file E) (\<lambda>r3.
                      case fst r3 of
                        Some v \<Rightarrow> io_return v
                      | None \<Rightarrow> version_default E (snd r3))"
  have "returns rest"
    unfolding rest_def
    by (auto intro!: returns_bind returns_version_from_file returns_return returns_version_default
          split: option.splits)
  from returnsD[OF this, of w2] obtain v w' where s3: "rest w2 = (Inr v, w')"
    by (elim exE)
  have "emits probe_call rest"
    unfolding rest_def
    by (intro emits_intros emits_version_from_file emits_version_default)
  from emitsD[OF this s3] obtain es where "calls w' = calls w2 @ es \<and> list_all probe_call es"
    by (elim exE)
  with c2 have c3: "calls w' = calls w @ [Subprocess (wmic_argv (join edge_dir_x86 ''msedge.exe'')) None,
                                   Subprocess reg_argv None] @ es"
    by simp
  have "get_edge_version E w = (Inr v, w')"
    unfolding get_edge_version_def rest_def[symmetric]
    by (simp add: try_except_def io_then_def io_bind_def logging_def w0_def[symmetric] s1 s2 s3)
  with c3 show ?thesis by (intro exI[of _ v] exI[of _ w'] exI[of _ es]) simp
qed


subsection \<open>The console\<close>

lemma prints_nothingD: "prints_nothing m \<Longrightarrow> m w = (r, w') \<Longrightarrow> printed w' = printed w"
  unfolding prints_nothing_def by (metis snd_conv)

lemma prints_nothing_return: "prints_nothing (io_return x)"
  by (simp add: prints_nothing_def io_return_def)

lemma prints_nothing_raise: "prints_nothing (io_raise e)"
  by (simp add: prints_nothing_def io_raise_def)

lemma prints_nothing_logging: "prints_nothing (logging lv s)"
  by (simp add: prints_nothing_def logging_def)

lemma prints_nothing_call: "prints_nothing (call ev)"
  by (simp add: prints_nothing_def call_def)

lemma prints_nothing_bind:
  assumes "prints_nothing m" and "\<And>x. prints_nothing (f x)"
  shows "prints_nothing (io_bind m f)"
  unfolding prints_nothing_def
proof
  fix w
  obtain r w1 where m: "m w = (r, w1)" by (cases "m w")
  note 1 = prints_nothingD[OF assms(1) m]
  show "printed (snd (io_bind m f w)) = printed w"
  proof (cases r)
    case (Inl e)
    with m 1 show ?thesis by (simp add: io_bind_def)
  next
    case (Inr x)
    obtain r2 w2 where f: "f x w1 = (r2, w2)" by (cases "f x w1")
    from prints_nothingD[OF assms(2) f] m 1 Inr f show ?thesis by (simp add: io_bind_def)
  qed
qed

lemma prints_nothing_then: "prints_nothing m \<Longrightarrow> prints_nothing n \<Longrightarrow> prints_nothing (io_then m n)"
  by (simp add: io_then_def prints_nothing_bind)

lemma prints_nothing_try_except:
  assumes "prints_nothing m" and "\<And>e. prints_nothing (h e)"
  shows "prints_nothing (try_except m h)"
  unfolding prints_nothing_def
proof
  fix w
  obtain r w1 where m: "m w = (r, w1)" by (cases "m w")
  note 1 = prints_nothingD[OF assms(1) m]
  show "printed (snd (try_except m h w)) = printed w"
  proof (cases r)
    case (Inr x)
    with m 1 show ?thesis by (simp add: try_except_def)
  next
    case (Inl e)
    obtain r2 w2 where h: "h e w1 = (r2, w2)" by (cases "h e w1")
    from prints_nothingD[OF assms(2) h] m 1 Inl h show ?thesis by (simp add: try_except_def)
  qed
qed

lemma prints_nothing_try_finally:
  assumes "prints_nothing m" and "prints_nothing c"
  shows "prints_nothing (try_finally m c)"
  unfolding prints_nothing_def
proof
  fix w
  obtain r w1 where m: "m w = (r, w1)" by (cases "m w")
  note 1 = prints_nothingD[OF assms(1) m]
  obtain r2 w2 where c: "c w1 = (r2, w2)" by (cases "c w1")
  from prints_nothingD[OF assms(2) c] m 1 c
  show "printed (snd (try_finally m c w)) = printed w"
    by (cases r2) (simp_all add: try_finally_def)
qed

lemma prints_nothing_if:
  "prints_nothing a \<Longrightarrow> prints_nothing b \<Longrightarrow> prints_nothing (if c then a else b)"
  by simp

lemma prints_nothing_case_option:
  "prints_nothing a \<Longrightarrow> (\<And>x. prints_nothing (f x)) \<Longrightarrow>
   prints_nothing (case opt of None \<Rightarrow> a | Some x \<Rightarrow> f x)"
  by (cases opt) simp_all

lemma prints_nothing_case_sum:
  "(\<And>e. prints_nothing (f e)) \<Longrightarrow> (\<And>x. prints_nothing (g x)) \<Longrightarrow>
   prints_nothing (case s of Inl e \<Rightarrow> f e | Inr x \<Rightarrow> g x)"
  by (cases s) simp_all

lemma prints_nothing_case_prod:
  "(\<And>a b. prints_nothing (f a b)) \<Longrightarrow> prints_nothing (case p of (a, b) \<Rightarrow> f a b)"
  by (cases p) simp

lemma prints_nothing_frame: "(\<And>w. printed (snd (m w)) = printed w) \<Longrightarrow> prints_nothing m"
  by (simp add: prints_nothing_def)

lemmas prints_nothing_intros =
  prints_nothing_return prints_nothing_raise prints_nothing_logging prints_nothing_call
  prints_nothing_bind prints_nothing_then prints_nothing_try_except prints_nothing_try_finally
  prints_nothing_if prints_nothing_case_option prints_nothing_case_sum prints_nothing_case_prod

lemma prints_nothing_os_path_exists: "prints_nothing (os_path_exists p)"
  by (rule prints_nothing_frame) (simp add: os_path_exists_def)

lemma prints_nothing_os_remove: "prints_nothing (os_remove E p)"
  by (rule prints_nothing_frame) (simp add: os_remove_def split: option.splits node.splits)

lemma prints_nothing_write_file: "prints_nothing (write_file E p d)"
  by (rule prints_nothing_frame) (simp add: write_file_def split: option.splits node.splits)

lemma prints_nothing_read_file: "prints_nothing (read_file E p)"
  by (rule prints_nothing_frame)
     (simp add: read_file_def split: option.splits node.splits sum.splits)

lemma prints_nothing_os_makedirs: "prints_nothing (os_makedirs E p)"
  by (rule prints_nothing_frame) (simp add: os_makedirs_def split: option.splits node.splits)

lemma prints_nothing_shutil_move: "prints_nothing (shutil_move E src dst)"
  by (rule prints_nothing_frame)
     (simp add: shutil_move_def Let_def split: option.splits node.splits)

lemma prints_nothing_shutil_rmtree: "prints_nothing (shutil_rmtree E p)"
  unfolding shutil_rmtree_def
  by (intro prints_nothing_then prints_nothing_call prints_nothing_frame)
     (simp split: option.splits node.splits)

lemma prints_nothing_tempfile_mkdtemp: "prints_nothing (tempfile_mkdtemp E)"
  by (rule prints_nothing_frame) (simp add: tempfile_mkdtemp_def split: sum.splits)

lemma prints_nothing_shell_namespace_items: "prints_nothing (shell_namespace_items E z)"
  by (rule prints_nothing_frame) (simp add: shell_namespace_items_def)

lemma prints_nothing_shell_copy_here: "prints_nothing (shell_copy_here E z d items)"
  by (rule prints_nothing_frame)
     (simp add: shell_copy_here_def split: option.splits node.splits)

lemma prints_nothing_wintypes_attr: "prints_nothing (wintypes_attr name)"
  unfolding wintypes_attr_def by (intro prints_nothing_intros)

lemma prints_nothing_py_get: "prints_nothing (py_get v k dflt)"
  by (cases v) (simp_all add: py_get_def prints_nothing_return prints_nothing_raise)

lemma prints_nothing_inet_read: "prints_nothing (inet_read E url)"
  unfolding inet_read_def by (intro prints_nothing_intros)

lemma prints_nothing_download_file_inet_read: "prints_nothing (download_file_inet_read E url p)"
  unfolding download_file_inet_read_def
  by (intro prints_nothing_intros prints_nothing_inet_read prints_nothing_write_file)

lemma prints_nothing_extract_zip_with_shell: "prints_nothing (extract_zip_with_shell E z d)"
  unfolding extract_zip_with_shell_def
  by (intro prints_nothing_intros prints_nothing_os_path_exists prints_nothing_os_makedirs
        prints_nothing_shell_namespace_items prints_nothing_shell_copy_here prints_nothing_frame)
     simp

lemma prints_nothing_download_file_with_wininet:
  "prints_nothing (download_file_with_wininet E url p)"
  unfolding download_file_with_wininet_def url_download_def urllib_download_def
  by (intro prints_nothing_intros prints_nothing_wintypes_attr prints_nothing_write_file
        prints_nothing_frame)
     (simp split: option.splits)

lemma prints_nothing_wmic_loop: "prints_nothing (wmic_loop E ps)"
  by (induction ps)
     (auto intro!: prints_nothing_intros prints_nothing_os_path_exists simp: subprocess_def)

lemma prints_nothing_get_edge_version: "prints_nothing (get_edge_version E)"
  unfolding get_edge_version_def version_from_wmic_def version_from_registry_def
    version_from_file_def version_default_def version_from_remote_def subprocess_def
  by (intro prints_nothing_intros prints_nothing_wmic_loop prints_nothing_os_path_exists
        prints_nothing_read_file prints_nothing_py_get prints_nothing_os_remove
        prints_nothing_download_file_with_wininet)

lemma prints_nothing_cache_check: "prints_nothing (cache_check ps)"
  by (induction ps) (auto intro!: prints_nothing_intros prints_nothing_os_path_exists)

lemma prints_nothing_move_found: "prints_nothing (move_found E b d root fs)"
  by (induction fs)
     (auto intro!: prints_nothing_intros prints_nothing_os_path_exists prints_nothing_shutil_move)

lemma prints_nothing_find_and_move: "prints_nothing (find_and_move E b d ts)"
  by (induction ts) (auto intro!: prints_nothing_intros prints_nothing_move_found split: sum.splits)

lemma prints_nothing_reconcile: "prints_nothing (reconcile E b d)"
  unfolding reconcile_def
  by (intro prints_nothing_intros prints_nothing_os_path_exists prints_nothing_find_and_move
        prints_nothing_frame)
     simp

lemma prints_nothing_in_workspace: "prints_nothing (in_workspace E b d v t)"
  unfolding in_workspace_def acquire_def cleanup_def
  by (intro prints_nothing_intros prints_nothing_download_file_inet_read
        prints_nothing_extract_zip_with_shell prints_nothing_os_remove prints_nothing_reconcile
        prints_nothing_shutil_rmtree)

lemma prints_nothing_get_edge_driver_path: "prints_nothing (get_edge_driver_path E)"
  unfolding get_edge_driver_path_def resolve_body_def
  by (intro prints_nothing_intros prints_nothing_cache_check prints_nothing_get_edge_version
        prints_nothing_tempfile_mkdtemp prints_nothing_in_workspace)

subsection \<open>What a successful extraction leaves\<close>

lemma same_name_trans: "same_name a b \<Longrightarrow> same_name b c \<Longrightarrow> same_name a c"
  by (simp add: same_name_def)














section \<open>The claims\<close>

text \<open>
  C1. When \<open>msedgedriver.exe\<close> already exists at one of the locations that
  \<open>get_edge_driver_path\<close> checks (the script directory, then the directory of the
  executable), the function returns the first location that exists. The state afterwards is
  the state before with one log line added: no external call is made (no version detection,
  no network, no download) and no file is touched.
\<close>

theorem cache_hit_returns_first_match:
  assumes "list_ex (path_exists (disk w)) (possible_driver_locations E)"
  shows "\<exists>p. find (path_exists (disk w)) (possible_driver_locations E) = Some p
           \<and> get_edge_driver_path E w =
               (Inr (Some p),
                w\<lparr>logged := logged w @ [(INFO, ''Edge driver found at: '' @ path_str p)]\<rparr>)"
proof -
  from list_ex_find[OF assms] obtain p
    where p: "find (path_exists (disk w)) (possible_driver_locations E) = Some p" by blast
  then have "get_edge_driver_path E w =
      (Inr (Some p), w\<lparr>logged := logged w @ [(INFO, ''Edge driver found at: '' @ path_str p)]\<rparr>)"
    by (simp add: get_edge_driver_path_def resolve_body_def try_except_def io_bind_def
          io_return_def cache_check_find)
  with p show ?thesis by blast
qed

theorem cache_hit_returns_first_match_witness:
  "list_ex (path_exists (disk world_cached)) (possible_driver_locations env_plain)
   \<and> get_edge_driver_path env_plain world_cached =
       (Inr (Some [''D:'', ''app'', ''msedgedriver.exe'']),
        world_cached\<lparr>logged := [(INFO, ''Edge driver found at: D:'' @ [backslash] @ ''app''
                                         @ [backslash] @ ''msedgedriver.exe'')]\<rparr>)"
proof -
  have h: "list_ex (path_exists (disk world_cached)) (possible_driver_locations env_plain)"
    by (simp add: scenario_defs module_defs fs_defs text_defs)
  from cache_hit_returns_first_match[OF h] obtain p
    where p: "find (path_exists (disk world_cached)) (possible_driver_locations env_plain) = Some p"
      and r: "get_edge_driver_path env_plain world_cached =
               (Inr (Some p),
                world_cached\<lparr>logged := logged world_cached
                                  @ [(INFO, ''Edge driver found at: '' @ path_str p)]\<rparr>)"
    by blast
  from p have "p = [''D:'', ''app'', ''msedgedriver.exe'']"
    by (simp add: scenario_defs module_defs fs_defs text_defs)
  with h r show ?thesis
    by (simp add: scenario_defs text_defs)
qed




text \<open>
  C3. The claim: \<open>extract_zip_with_shell\<close> reports success exactly when, after the copy,
  \<open>msedgedriver.exe\<close> is in the destination or in one of its subdirectories. The code: the
  search of the subdirectories unpacks the triples of \<open>os.walk\<close> into two names, which raises
  \<open>ValueError\<close> at the first directory; the \<open>except\<close> of the function turns it into
  \<open>False\<close>. With an archive whose driver lies in a folder, the copy puts the driver under
  the destination and the function reports failure.
\<close>

theorem extract_fails_on_driver_in_subfolder:
  "fst (extract_zip_with_shell env_nested [''D:'', ''tmp'', ''ws'', ''edgedriver.zip'']
          [''D:'', ''app''] world_downloaded) = Inr False
   \<and> path_exists (disk (snd (extract_zip_with_shell env_nested
          [''D:'', ''tmp'', ''ws'', ''edgedriver.zip''] [''D:'', ''app''] world_downloaded)))
         [''D:'', ''app'', ''edgedriver_win64'', ''msedgedriver.exe'']
   \<and> last (logged (snd (extract_zip_with_shell env_nested
          [''D:'', ''tmp'', ''ws'', ''edgedriver.zip''] [''D:'', ''app''] world_downloaded)))
       = (ERROR, ''Error extracting ZIP with Shell.Application: too many values to unpack (expected 2)'')"
  by (simp add: env_nested_def world_downloaded_def scenario_defs module_defs io_defs fs_defs
        text_defs)




text \<open>
  C5. The claim: whenever the workspace has been created it is gone when
  \<open>get_edge_driver_path\<close> returns. The code: the \<open>finally\<close> clause calls \<open>shutil.rmtree\<close> inside
  \<open>try\<close> / \<open>except: pass\<close> (lines 387 to 392), so a removal that the operating system
  refuses is ignored. With the archive still held open by another process the function
  returns the driver, or \<open>None\<close> when the download failed, and the workspace stays.
\<close>

theorem workspace_removed_counterexample:
  "fst (get_edge_driver_path env_busy world_fresh) = Inr (Some [''D:'', ''app'', ''msedgedriver.exe''])
   \<and> path_isdir (disk (snd (get_edge_driver_path env_busy world_fresh))) [''D:'', ''tmp'', ''ws'']
   \<and> fst (get_edge_driver_path env_busy_no_url world_fresh) = Inr None
   \<and> path_isdir (disk (snd (get_edge_driver_path env_busy_no_url world_fresh))) [''D:'', ''tmp'', ''ws'']"
  by (simp add: env_busy_no_url_def env_busy_def scenario_defs module_defs io_defs fs_defs text_defs)

text \<open>
  C5 as amended. Whenever the workspace has been created (the driver is not cached, a
  version is detected and \<open>mkdtemp\<close> succeeds), \<open>get_edge_driver_path\<close> returns, and the last
  external call it makes is the removal of the workspace, on every path through the
  download, the extraction and the reconciliation, exceptions included. When the
  operating system does not refuse that removal, no directory is left at the path of the
  workspace; a refused removal is ignored.
\<close>

theorem workspace_removal_attempted:
  assumes "\<not> list_ex (path_exists (disk w)) (possible_driver_locations E)"
    and "get_edge_version E
           (w\<lparr>logged := logged w @ [(INFO, ''Edge driver not found in expected locations.'')]\<rparr>)
         = (Inr v, w1)"
    and "truthy v"
    and "mkdtemp_name E = Inr name"
  shows "\<exists>r w'. get_edge_driver_path E w = (Inr r, w')
           \<and> last (calls w') = Rmtree (join (tempdir E) name)
           \<and> (deny E OpRmtree (join (tempdir E) name) = None \<longrightarrow>
                \<not> path_isdir (disk w') (join (tempdir E) name))"
proof -
  have "join (tempdir E) name \<noteq> []" by (simp add: join_def)
  with in_workspace_removes[of E "script_dir E" "join (script_dir E) driver_name" v
      "join (tempdir E) name"]
  show ?thesis
    unfolding resolve_miss[OF assms] by simp
qed

theorem workspace_removal_attempted_witness:
  "\<not> list_ex (path_exists (disk world_fresh)) (possible_driver_locations env_no_url)
   \<and> get_edge_version env_no_url
        (world_fresh\<lparr>logged := logged world_fresh
                         @ [(INFO, ''Edge driver not found in expected locations.'')]\<rparr>)
       = (Inr (JString ''136.0.3240.64''), world_probed)
   \<and> mkdtemp_name env_no_url = Inr ''ws''
   \<and> deny env_no_url OpRmtree [''D:'', ''tmp'', ''ws''] = None
   \<and> fst (get_edge_driver_path env_no_url world_fresh) = Inr None
   \<and> last (calls (snd (get_edge_driver_path env_no_url world_fresh))) = Rmtree [''D:'', ''tmp'', ''ws'']
   \<and> \<not> path_isdir (disk (snd (get_edge_driver_path env_no_url world_fresh))) [''D:'', ''tmp'', ''ws'']"
proof -
  have miss: "\<not> list_ex (path_exists (disk world_fresh)) (possible_driver_locations env_no_url)"
    by (simp add: env_no_url_def scenario_defs module_defs fs_defs text_defs)
  have ver: "get_edge_version env_no_url
        (world_fresh\<lparr>logged := logged world_fresh
                         @ [(INFO, ''Edge driver not found in expected locations.'')]\<rparr>)
       = (Inr (JString ''136.0.3240.64''), world_probed)"
    by (simp add: env_no_url_def world_probed_def scenario_defs module_defs io_defs fs_defs
          text_defs)
  have v: "truthy (JString ''136.0.3240.64'')" by simp
  have tmp: "mkdtemp_name env_no_url = Inr ''ws''"
    and free: "deny env_no_url OpRmtree [''D:'', ''tmp'', ''ws''] = None"
    and t: "join (tempdir env_no_url) ''ws'' = [''D:'', ''tmp'', ''ws'']"
    by (simp_all add: env_no_url_def env_plain_def join_def)
  from workspace_removal_attempted[OF miss ver v tmp] obtain r w'
    where run: "get_edge_driver_path env_no_url world_fresh = (Inr r, w')
      \<and> last (calls w') = Rmtree (join (tempdir env_no_url) ''ws'')
      \<and> (deny env_no_url OpRmtree (join (tempdir env_no_url) ''ws'') = None \<longrightarrow>
                \<not> path_isdir (disk w') (join (tempdir env_no_url) ''ws''))"
    by (elim exE)
  have "fst (get_edge_driver_path env_no_url world_fresh) = Inr None"
    by (simp add: env_no_url_def scenario_defs module_defs io_defs fs_defs text_defs)
  with run free t miss ver tmp show ?thesis by simp
qed




text \<open>
  C7. Whatever the outside world answers, \<open>get_edge_driver_path\<close> ends with a value and
  never with an exception, and it prints nothing. An exception that leaves the body of its
  outer \<open>try\<close> is caught there: it is logged and the function returns \<open>None\<close>. The
  program, once \<open>initialize_logging\<close> has returned, runs \<open>get_edge_driver_path\<close> and ends
  normally with exactly one more line on the console: the path when one was returned and the
  failure message otherwise. The only exception that can end the program is one raised
  while the log file is opened, before the acquisition starts; the program then ends with
  that exception in the state in which it was raised.
\<close>

theorem resolve_never_raises:
  "\<exists>r w'. get_edge_driver_path E w = (Inr r, w')
     \<and> printed w' = printed w
     \<and> (\<forall>e w1. resolve_body E w = (Inl e, w1) \<longrightarrow>
           r = None
           \<and> w' = w1\<lparr>logged := logged w1
                          @ [(ERROR, ''Error setting up Edge driver: '' @ error_str e)]\<rparr>)
     \<and> report E w =
          (Inr (),
           w'\<lparr>printed := printed w'
                 @ [case r of
                      None \<Rightarrow> ''Failed to set up Edge driver.''
                    | Some p \<Rightarrow>
                        if path_str p \<noteq> [] then ''Edge driver is ready at: '' @ path_str p
                        else ''Failed to set up Edge driver.'']\<rparr>)
     \<and> (\<forall>w0. initialize_logging E (module_dir E) w0 = (Inr (), w) \<longrightarrow>
           main E w0 =
             (Inr (),
              w'\<lparr>printed := printed w
                    @ [case r of
                         None \<Rightarrow> ''Failed to set up Edge driver.''
                       | Some p \<Rightarrow>
                           if path_str p \<noteq> [] then ''Edge driver is ready at: '' @ path_str p
                           else ''Failed to set up Edge driver.'']\<rparr>))
     \<and> (\<forall>w0 e w2. initialize_logging E (module_dir E) w0 = (Inl e, w2) \<longrightarrow>
           main E w0 = (Inl e, w2))
     \<and> (\<forall>w0 e w2. main E w0 = (Inl e, w2) \<longrightarrow>
           initialize_logging E (module_dir E) w0 = (Inl e, w2))"
proof -
  from returnsD[OF returns_get_edge_driver_path] obtain r w'
    where run: "get_edge_driver_path E w = (Inr r, w')" by blast
  have quiet: "printed w' = printed w"
    using prints_nothingD[OF prints_nothing_get_edge_driver_path run] .
  have handler: "\<forall>e w1. resolve_body E w = (Inl e, w1) \<longrightarrow>
           r = None
           \<and> w' = w1\<lparr>logged := logged w1
                          @ [(ERROR, ''Error setting up Edge driver: '' @ error_str e)]\<rparr>"
    using run
    by (auto simp: get_edge_driver_path_def try_except_def io_then_def io_bind_def
          logging_def io_return_def)
  have rep: "report E w =
          (Inr (),
           w'\<lparr>printed := printed w'
                 @ [case r of
                      None \<Rightarrow> ''Failed to set up Edge driver.''
                    | Some p \<Rightarrow>
                        if path_str p \<noteq> [] then ''Edge driver is ready at: '' @ path_str p
                        else ''Failed to set up Edge driver.'']\<rparr>)"
    using run by (simp add: report_def io_bind_def print_def split: option.splits)
  have started: "\<forall>w0. initialize_logging E (module_dir E) w0 = (Inr (), w) \<longrightarrow>
           main E w0 =
             (Inr (),
              w'\<lparr>printed := printed w
                    @ [case r of
                         None \<Rightarrow> ''Failed to set up Edge driver.''
                       | Some p \<Rightarrow>
                           if path_str p \<noteq> [] then ''Edge driver is ready at: '' @ path_str p
                           else ''Failed to set up Edge driver.'']\<rparr>)"
    using rep quiet by (simp add: main_def io_then_def io_bind_def)
  have refused: "\<forall>w0 e w2. initialize_logging E (module_dir E) w0 = (Inl e, w2) \<longrightarrow>
           main E w0 = (Inl e, w2)"
    by (simp add: main_def io_then_def io_bind_def)
  have only: "\<forall>w0 e w2. main E w0 = (Inl e, w2) \<longrightarrow>
           initialize_logging E (module_dir E) w0 = (Inl e, w2)"
  proof (intro allI impI)
    fix w0 e w2
    assume m: "main E w0 = (Inl e, w2)"
    obtain r0 w1 where i: "initialize_logging E (module_dir E) w0 = (r0, w1)"
      by (cases "initialize_logging E (module_dir E) w0")
    show "initialize_logging E (module_dir E) w0 = (Inl e, w2)"
    proof (cases r0)
      case (Inl e')
      with m i show ?thesis by (simp add: main_def io_then_def io_bind_def)
    next
      case (Inr u)
      from returnsD[OF returns_report] obtain x w3 where "report E w1 = (Inr x, w3)" by blast
      with m i Inr show ?thesis by (simp add: main_def io_then_def io_bind_def)
    qed
  qed
  from run quiet handler rep started refused only show ?thesis by blast
qed

theorem resolve_never_raises_witness:
  "initialize_logging env_no_temp (module_dir env_no_temp) world_fresh = (Inr (), world_started)
   \<and> resolve_body env_no_temp world_started =
       (Inl (OSError ''No usable temporary directory found''),
        world_started\<lparr>logged := logged world_started
                             @ [(INFO, ''Edge driver not found in expected locations.''),
                                (INFO, ''Detecting Edge browser version...''),
                                (INFO, ''Edge version detected (registry): 136.0.3240.64'')],
                        calls := [Subprocess reg_argv None]\<rparr>)
   \<and> fst (get_edge_driver_path env_no_temp world_started) = Inr None
   \<and> last (logged (snd (get_edge_driver_path env_no_temp world_started))) =
       (ERROR, ''Error setting up Edge driver: No usable temporary directory found'')
   \<and> fst (main env_no_temp world_fresh) = Inr ()
   \<and> printed (snd (main env_no_temp world_fresh)) = [''Failed to set up Edge driver.'']
   \<and> initialize_logging env_plain (module_dir env_plain) world_fresh = (Inr (), world_started)
   \<and> fst (get_edge_driver_path env_plain world_started)
       = Inr (Some [''D:'', ''app'', ''msedgedriver.exe''])
   \<and> fst (main env_plain world_fresh) = Inr ()
   \<and> printed (snd (main env_plain world_fresh)) =
       [''Edge driver is ready at: D:'' @ [backslash] @ ''app'' @ [backslash] @ ''msedgedriver.exe'']"
proof -
  have init: "initialize_logging env_no_temp (module_dir env_no_temp) world_fresh
                = (Inr (), world_started)"
    by (simp add: env_no_temp_def world_started_def scenario_defs module_defs io_defs fs_defs
          text_defs)
  have body: "resolve_body env_no_temp world_started =
       (Inl (OSError ''No usable temporary directory found''),
        world_started\<lparr>logged := logged world_started
                             @ [(INFO, ''Edge driver not found in expected locations.''),
                                (INFO, ''Detecting Edge browser version...''),
                                (INFO, ''Edge version detected (registry): 136.0.3240.64'')],
                        calls := [Subprocess reg_argv None]\<rparr>)"
    by (simp add: env_no_temp_def world_started_def scenario_defs module_defs io_defs fs_defs
          text_defs)
  from resolve_never_raises[of env_no_temp world_started] obtain r w'
    where run: "get_edge_driver_path env_no_temp world_started = (Inr r, w')"
      and handler: "\<forall>e w1. resolve_body env_no_temp world_started = (Inl e, w1) \<longrightarrow>
           r = None
           \<and> w' = w1\<lparr>logged := logged w1
                          @ [(ERROR, ''Error setting up Edge driver: '' @ error_str e)]\<rparr>"
      and started: "\<forall>w0. initialize_logging env_no_temp (module_dir env_no_temp) w0
                            = (Inr (), world_started) \<longrightarrow>
           main env_no_temp w0 =
             (Inr (),
              w'\<lparr>printed := printed world_started
                    @ [case r of
                         None \<Rightarrow> ''Failed to set up Edge driver.''
                       | Some p \<Rightarrow>
                           if path_str p \<noteq> [] then ''Edge driver is ready at: '' @ path_str p
                           else ''Failed to set up Edge driver.'']\<rparr>)"
    by blast
  from handler body have r: "r = None"
    and w': "logged w' = logged world_started
                  @ [(INFO, ''Edge driver not found in expected locations.''),
                     (INFO, ''Detecting Edge browser version...''),
                     (INFO, ''Edge version detected (registry): 136.0.3240.64''),
                     (ERROR, ''Error setting up Edge driver: No usable temporary directory found'')]"
    by simp_all
  from started init r have m: "main env_no_temp world_fresh =
      (Inr (), w'\<lparr>printed := printed world_started @ [''Failed to set up Edge driver.'']\<rparr>)"
    by simp
  have init2: "initialize_logging env_plain (module_dir env_plain) world_fresh
                = (Inr (), world_started)"
    by (simp add: world_started_def scenario_defs module_defs io_defs fs_defs text_defs)
  have found: "fst (get_edge_driver_path env_plain world_started)
       = Inr (Some [''D:'', ''app'', ''msedgedriver.exe''])"
    by (simp add: world_started_def scenario_defs module_defs io_defs fs_defs text_defs)
  from resolve_never_raises[of env_plain world_started] obtain r2 w2
    where run2: "get_edge_driver_path env_plain world_started = (Inr r2, w2)"
      and started2: "\<forall>w0. initialize_logging env_plain (module_dir env_plain) w0
                            = (Inr (), world_started) \<longrightarrow>
           main env_plain w0 =
             (Inr (),
              w2\<lparr>printed := printed world_started
                    @ [case r2 of
                         None \<Rightarrow> ''Failed to set up Edge driver.''
                       | Some p \<Rightarrow>
                           if path_str p \<noteq> [] then ''Edge driver is ready at: '' @ path_str p
                           else ''Failed to set up Edge driver.'']\<rparr>)"
    by blast
  from run2 found have r2: "r2 = Some [''D:'', ''app'', ''msedgedriver.exe'']" by simp
  from started2 init2 r2 have m2: "main env_plain world_fresh =
      (Inr (), w2\<lparr>printed := printed world_started
          @ [''Edge driver is ready at: D:'' @ [backslash] @ ''app'' @ [backslash]
               @ ''msedgedriver.exe'']\<rparr>)"
    by (simp add: text_defs)
  show ?thesis
    using init body run r w' m init2 found m2 by (simp add: world_started_def)
qed

text \<open>
  C8. The claim: the \<open>wmic\<close> and \<open>reg\<close> subprocesses are run with a timeout of some seconds,
  and a timeout counts as the failure of the strategy. The code: both \<open>subprocess.run\<close> calls
  pass \<open>capture_output\<close> and \<open>text\<close> only (lines 240 to 242 and 253 to 256), so the calls
  wait for the utility without a limit. On a machine with Edge installed both utilities
  are run, each with no timeout.
\<close>

theorem subprocess_timeout_counterexample:
  "calls (snd (get_edge_version env_plain world_edge)) =
     [Subprocess (wmic_argv (join edge_dir_x86 ''msedge.exe'')) None, Subprocess reg_argv None]
   \<and> fst (get_edge_version env_plain world_edge) = Inr (JString ''136.0.3240.64'')"
  by (simp add: world_edge_def scenario_defs module_defs io_defs fs_defs text_defs)

text \<open>
  C8 as amended. Every external call of \<open>get_edge_version\<close> is one of \<open>probe_call\<close>: every
  subprocess is run with no timeout. An exception of \<open>subprocess.run\<close> (the utility cannot
  be started, for one) is the failure of that strategy only: the \<open>wmic\<close> strategy and the
  registry strategy log a warning and produce no result, the registry query is still made
  after the \<open>wmic\<close> query has raised, and \<open>get_edge_version\<close> returns a version.
\<close>

theorem subprocesses_run_without_timeout:
  "(\<exists>es. calls (snd (get_edge_version E w)) = calls w @ es \<and> list_all probe_call es
          \<and> Subprocess argv (Some seconds) \<notin> set es)
   \<and> (path_exists (disk w) (join edge_dir_x86 ''msedge.exe'') \<longrightarrow>
        subprocess_run E (wmic_argv (join edge_dir_x86 ''msedge.exe'')) = Inl e1 \<longrightarrow>
          version_from_wmic E w =
            (Inr None,
             w\<lparr>logged := logged w
                    @ [(WARNING, ''Could not get Edge version using wmic: '' @ error_str e1)],
               calls := calls w
                    @ [Subprocess (wmic_argv (join edge_dir_x86 ''msedge.exe'')) None]\<rparr>))
   \<and> (subprocess_run E reg_argv = Inl e2 \<longrightarrow>
          version_from_registry E w =
            (Inr None,
             w\<lparr>logged := logged w
                    @ [(WARNING, ''Could not get Edge version using registry: '' @ error_str e2)],
               calls := calls w @ [Subprocess reg_argv None]\<rparr>))
   \<and> (path_exists (disk w) (join edge_dir_x86 ''msedge.exe'') \<longrightarrow>
        subprocess_run E (wmic_argv (join edge_dir_x86 ''msedge.exe'')) = Inl e1 \<longrightarrow>
        subprocess_run E reg_argv = Inl e2 \<longrightarrow>
          (\<exists>v w' es. get_edge_version E w = (Inr v, w')
             \<and> calls w' = calls w @ [Subprocess (wmic_argv (join edge_dir_x86 ''msedge.exe'')) None,
                                     Subprocess reg_argv None] @ es))"
proof (intro conjI impI)
  obtain r w' where run: "get_edge_version E w = (r, w')"
    by (cases "get_edge_version E w")
  from emitsD[OF emits_get_edge_version run] obtain es
    where es: "calls w' = calls w @ es" "list_all probe_call es" by blast
  have "Subprocess argv (Some seconds) \<notin> set es"
  proof
    assume mem: "Subprocess argv (Some seconds) \<in> set es"
    from es(2) have "\<forall>ev\<in>set es. probe_call ev" by (simp add: list_all_iff)
    from bspec[OF this mem] show False by (simp add: probe_call_def)
  qed
  with es run show "\<exists>es. calls (snd (get_edge_version E w)) = calls w @ es
      \<and> list_all probe_call es \<and> Subprocess argv (Some seconds) \<notin> set es"
    by (intro exI[of _ es]) simp
next
  assume "path_exists (disk w) (join edge_dir_x86 ''msedge.exe'')"
    and "subprocess_run E (wmic_argv (join edge_dir_x86 ''msedge.exe'')) = Inl e1"
  then show "version_from_wmic E w =
            (Inr None,
             w\<lparr>logged := logged w
                    @ [(WARNING, ''Could not get Edge version using wmic: '' @ error_str e1)],
               calls := calls w
                    @ [Subprocess (wmic_argv (join edge_dir_x86 ''msedge.exe'')) None]\<rparr>)"
    by (rule version_from_wmic_raises)
next
  assume "subprocess_run E reg_argv = Inl e2"
  then show "version_from_registry E w =
            (Inr None,
             w\<lparr>logged := logged w
                    @ [(WARNING, ''Could not get Edge version using registry: '' @ error_str e2)],
               calls := calls w @ [Subprocess reg_argv None]\<rparr>)"
    by (rule version_from_registry_raises)
next
  assume "path_exists (disk w) (join edge_dir_x86 ''msedge.exe'')"
    and "subprocess_run E (wmic_argv (join edge_dir_x86 ''msedge.exe'')) = Inl e1"
    and "subprocess_run E reg_argv = Inl e2"
  then show "\<exists>v w' es. get_edge_version E w = (Inr v, w')
             \<and> calls w' = calls w @ [Subprocess (wmic_argv (join edge_dir_x86 ''msedge.exe'')) None,
                                     Subprocess reg_argv None] @ es"
    by (rule get_edge_version_after_two_failures)
qed

theorem subprocesses_run_without_timeout_witness:
  "path_exists (disk world_edge) (join edge_dir_x86 ''msedge.exe'')
   \<and> subprocess_run env_cut (wmic_argv (join edge_dir_x86 ''msedge.exe''))
       = Inl (FileNotFoundError ''The system cannot find the file specified'')
   \<and> subprocess_run env_cut reg_argv
       = Inl (FileNotFoundError ''The system cannot find the file specified'')
   \<and> fst (version_from_wmic env_cut world_edge) = Inr None
   \<and> logged (snd (version_from_wmic env_cut world_edge)) =
       [(WARNING, ''Could not get Edge version using wmic: The system cannot find the file specified'')]
   \<and> fst (version_from_registry env_cut world_edge) = Inr None
   \<and> fst (get_edge_version env_cut world_edge) = Inr (JString fallback_version)
   \<and> take 2 (calls (snd (get_edge_version env_cut world_edge))) =
       [Subprocess (wmic_argv (join edge_dir_x86 ''msedge.exe'')) None, Subprocess reg_argv None]"
proof -
  let ?e = "FileNotFoundError ''The system cannot find the file specified''"
  have there: "path_exists (disk world_edge) (join edge_dir_x86 ''msedge.exe'')"
    by (simp add: world_edge_def module_defs fs_defs text_defs)
  have wmic: "subprocess_run env_cut (wmic_argv (join edge_dir_x86 ''msedge.exe'')) = Inl ?e"
    and reg: "subprocess_run env_cut reg_argv = Inl ?e"
    by (simp_all add: env_cut_def env_plain_def)
  note inst = subprocesses_run_without_timeout[where E = env_cut and w = world_edge
      and ?e1.0 = ?e and ?e2.0 = ?e and argv = reg_argv and seconds = "5"]
  from inst[THEN conjunct2, THEN conjunct1, rule_format, OF there wmic] have s1: "version_from_wmic env_cut world_edge =
            (Inr None,
             world_edge\<lparr>logged := logged world_edge
                    @ [(WARNING, ''Could not get Edge version using wmic: '' @ error_str ?e)],
               calls := calls world_edge
                    @ [Subprocess (wmic_argv (join edge_dir_x86 ''msedge.exe'')) None]\<rparr>)"
    .
  from inst[THEN conjunct2, THEN conjunct2, THEN conjunct1, rule_format, OF reg] have s2: "version_from_registry env_cut world_edge =
            (Inr None,
             world_edge\<lparr>logged := logged world_edge
                    @ [(WARNING, ''Could not get Edge version using registry: '' @ error_str ?e)],
               calls := calls world_edge @ [Subprocess reg_argv None]\<rparr>)"
    .
  from inst[THEN conjunct2, THEN conjunct2, THEN conjunct2, rule_format, OF there wmic reg]
  have "\<exists>v w' es. get_edge_version env_cut world_edge = (Inr v, w')
             \<and> calls w' = calls world_edge
                  @ [Subprocess (wmic_argv (join edge_dir_x86 ''msedge.exe'')) None,
                     Subprocess reg_argv None] @ es"
    .
  then obtain v w' es where s3: "get_edge_version env_cut world_edge = (Inr v, w')
             \<and> calls w' = calls world_edge
                  @ [Subprocess (wmic_argv (join edge_dir_x86 ''msedge.exe'')) None,
                     Subprocess reg_argv None] @ es"
    by (elim exE)
  have v: "fst (get_edge_version env_cut world_edge) = Inr (JString fallback_version)"
    by (simp add: env_cut_def world_edge_def scenario_defs module_defs io_defs fs_defs text_defs)
  have c: "take 2 (calls (snd (get_edge_version env_cut world_edge))) =
       [Subprocess (wmic_argv (join edge_dir_x86 ''msedge.exe'')) None, Subprocess reg_argv None]"
    using s3 by (simp add: world_edge_def)
  from there wmic reg s1 s2 v c show ?thesis
    by (simp add: world_edge_def)
qed

text \<open>
  C9. The claim: the remote lookup of \<open>get_edge_version\<close> deletes its temporary file
  \<open>edge_version.txt\<close> whether it succeeds or fails. The code: \<open>os.remove(temp_file)\<close> is on
  the success path only, after the file has been read (lines 289 to 294), with no \<open>finally\<close>
  as the one that removes the workspace in \<open>get_edge_driver_path\<close>. When the download
  fails after urllib has opened the destination, here with a connection that breaks in the
  middle of the body, the function falls back to the constant and the partial file stays in
  the temporary directory.
\<close>

theorem failed_lookup_leaves_temp_file:
  "fst (get_edge_version env_cut world_fresh) = Inr (JString fallback_version)
   \<and> fs_lookup (disk (snd (get_edge_version env_cut world_fresh)))
         (join (tempdir env_cut) ''edge_version.txt'') = Some (File ''137.0'')
   \<and> \<not> path_exists (disk world_fresh) (join (tempdir env_cut) ''edge_version.txt'')
   \<and> map fst (logged (snd (get_edge_version env_cut world_fresh))) =
       [INFO, WARNING, WARNING, INFO, WARNING, INFO, ERROR, INFO]"
  by (simp add: env_cut_def scenario_defs module_defs io_defs fs_defs text_defs)

text \<open>
  C10. In \<open>inet_read\<close>, once both handles are open, a read call that fails after some
  chunks have arrived ends the loop exactly as the end of the stream does: the bytes read so
  far are returned as the result. \<open>download_file_inet_read\<close> then writes these bytes to the
  destination and reports success.
\<close>

theorem failed_read_returns_partial_data:
  assumes "internet_open E \<noteq> 0" and "internet_open_url E url \<noteq> 0"
    and "internet_read_file E url = map ReadOk chunks @ ReadFailed # rest"
    and "[] \<notin> set chunks"
    and "deny E OpWrite save_path = None"
    and "save_path \<noteq> []" and "path_isdir (disk w) (dirname save_path)"
    and "\<not> path_isdir (disk w) save_path"
  shows "read_loop (internet_read_file E url) [] = read_loop (map ReadOk chunks @ [ReadOk []]) []
       \<and> fst (inet_read E url w) = Inr (Some (concat chunks))
       \<and> fst (download_file_inet_read E url save_path w) = Inr True
       \<and> fs_lookup (disk (snd (download_file_inet_read E url save_path w))) save_path
           = Some (File (concat chunks))"
proof -
  have loop: "read_loop (internet_read_file E url) [] = Inr (concat chunks)"
    using assms(3,4) by (simp add: read_loop_chunks)
  have eof: "read_loop (map ReadOk chunks @ [ReadOk []]) [] = Inr (concat chunks)"
    using assms(4) by (simp add: read_loop_chunks)
  note read = inet_read_reads[OF assms(1,2) loop]
  obtain ds where parent: "fs_lookup (disk w) (dirname save_path) = Some (Dir ds)"
    using assms(7) by (auto simp: path_isdir_def split: option.splits node.splits)
  obtain r1 w1 where run: "inet_read E url w = (r1, w1)"
    by (cases "inet_read E url w")
  with read have w1: "inet_read E url w = (Inr (Some (concat chunks)), w1)"
    and d1: "disk w1 = disk w"
    by auto
  have wr: "write_file E save_path (concat chunks) w1 =
      (Inr (), w1\<lparr>disk := fs_put save_path (File (concat chunks)) (disk w)\<rparr>)"
    using write_file_ok[of E save_path w1 ds "concat chunks"] assms(5,6,8) parent d1 by simp
  have dl: "download_file_inet_read E url save_path w =
      (Inr True,
       w1\<lparr>disk := fs_put save_path (File (concat chunks)) (disk w),
            logged := logged w1 @ [(INFO, ''File saved to: '' @ path_str save_path)]\<rparr>)"
    unfolding download_file_inet_read_def try_except_def
    by (simp add: io_bind_def w1 io_then_def wr logging_def io_return_def)
  have a: "fst (inet_read E url w) = Inr (Some (concat chunks))"
    by (simp add: w1)
  have b: "fst (download_file_inet_read E url save_path w) = Inr True"
    by (simp add: dl)
  have c: "fs_lookup (disk (snd (download_file_inet_read E url save_path w))) save_path
           = Some (File (concat chunks))"
    by (simp add: dl lookup_fs_put[OF assms(6) parent])
  from loop eof a b c show ?thesis by simp
qed

theorem failed_read_returns_partial_data_witness:
  "internet_read_file env_broken_read (download_url ''136.0.3240.64'') = map ReadOk [''PK''] @ ReadFailed # []
   \<and> fst (inet_read env_broken_read (download_url ''136.0.3240.64'') world_fresh) = Inr (Some ''PK'')
   \<and> fst (download_file_inet_read env_broken_read (download_url ''136.0.3240.64'')
             [''D:'', ''tmp'', ''edgedriver.zip''] world_fresh) = Inr True
   \<and> fs_lookup (disk (snd (download_file_inet_read env_broken_read (download_url ''136.0.3240.64'')
             [''D:'', ''tmp'', ''edgedriver.zip''] world_fresh))) [''D:'', ''tmp'', ''edgedriver.zip'']
       = Some (File ''PK'')"
proof -
  have 1: "internet_open env_broken_read \<noteq> 0"
    and 2: "internet_open_url env_broken_read (download_url ''136.0.3240.64'') \<noteq> 0"
    and 3: "internet_read_file env_broken_read (download_url ''136.0.3240.64'')
              = map ReadOk [''PK''] @ ReadFailed # []"
    and 4: "[] \<notin> set [''PK'']"
    and 5: "deny env_broken_read OpWrite [''D:'', ''tmp'', ''edgedriver.zip''] = None"
    and 6: "[''D:'', ''tmp'', ''edgedriver.zip''] \<noteq> []"
    by (simp_all add: env_broken_read_def env_plain_def)
  have 7: "path_isdir (disk world_fresh) (dirname [''D:'', ''tmp'', ''edgedriver.zip''])"
    and 8: "\<not> path_isdir (disk world_fresh) [''D:'', ''tmp'', ''edgedriver.zip'']"
    by (simp_all add: scenario_defs fs_defs text_defs)
  from failed_read_returns_partial_data[OF 1 2 3 4 5 6 7 8] 3 show ?thesis
    by simp
qed

end
